theory Spec2Isabelle
  imports Main
begin

section \<open>The store (database.py)\<close>

text \<open>
  The three tables of the schema, one record per row. A table is the list of its rows in
  insertion order. Python's integers are unbounded, so every number is an \<open>int\<close>.
  An integer column of the store holds a signed 64-bit value, and binding a balance
  outside that range to the balance update raises \<open>OverflowError\<close>; the keys and
  the other integer fields are taken as they are given. Text is a \<open>string\<close> whose
  characters stand for the code points 0 to 255.
  The surrogate key of a transaction row is its position in the table and is not stored.
\<close>

record customer =
  c_sortcode :: string
  c_number :: int
  c_name :: string
  c_address :: string
  c_date_of_birth :: string
  c_credit_score :: int
  c_cs_review_date :: string

record account =
  a_sortcode :: string
  a_number :: int
  a_customer_number :: int
  a_account_type :: string
  a_interest_rate :: int
  a_opened :: string
  a_overdraft_limit :: int
  a_last_statement :: "string option"
  a_next_statement :: "string option"
  a_available_balance :: int
  a_actual_balance :: int

record transaction =
  t_sortcode :: string
  t_account_number :: int
  t_trans_date :: string
  t_trans_time :: string
  t_trans_type :: string
  t_description :: string
  t_amount :: int

record db =
  customers :: "customer list"
  accounts :: "account list"
  transactions :: "transaction list"

text \<open>
  Exceptions are values. The first four are the \<open>ServiceError\<close> subclasses of
  services.py, each with its message; \<open>IntegrityError\<close> is what the store raises on
  a primary-key or foreign-key violation (the connection runs with foreign keys on)
  and \<open>OverflowError\<close> what the binding of an integer outside the signed 64-bit
  range raises;
  \<open>TimeoutError\<close> and \<open>ValueError\<close> come from the thread pool of credit.py and
  \<open>IndexError\<close> from indexing an empty list.
\<close>

datatype error =
  CustomerNotFound string
  | AccountNotFound string
  | ValidationError string
  | InsufficientFunds string
  | IntegrityError
  | OverflowError
  | TimeoutError
  | ValueError
  | IndexError

fun is_ServiceError :: "error \<Rightarrow> bool" where
  "is_ServiceError (CustomerNotFound m) = True"
| "is_ServiceError (AccountNotFound m) = True"
| "is_ServiceError (ValidationError m) = True"
| "is_ServiceError (InsufficientFunds m) = True"
| "is_ServiceError e = False"

section \<open>Constants (config.py)\<close>

definition SORT_CODE :: string where
  "SORT_CODE = ''987654''"

definition MAX_ACCOUNTS_PER_QUERY :: nat where
  "MAX_ACCOUNTS_PER_QUERY = 20"

definition VALID_TITLES :: "string list" where
  "VALID_TITLES =
     [''Mr'', ''Mrs'', ''Miss'', ''Ms'', ''Dr'', ''Drs'',
      ''Professor'', ''Lord'', ''Sir'', ''Lady'', '''']"

definition VALID_ACCOUNT_TYPES :: "string list" where
  "VALID_ACCOUNT_TYPES = [''CURRENT'', ''SAVING'', ''LOAN'', ''MORTGAGE'', ''ISA'']"

definition DEFAULT_RATES :: "(string \<times> (string \<times> int) list) list" where
  "DEFAULT_RATES =
     [(''ISA'', [(''interest'', 250), (''overdraft'', 0)]),
      (''SAVING'', [(''interest'', 150), (''overdraft'', 0)]),
      (''CURRENT'', [(''interest'', 0), (''overdraft'', 0)]),
      (''LOAN'', [(''interest'', 750), (''overdraft'', 0)]),
      (''MORTGAGE'', [(''interest'', 450), (''overdraft'', 0)])]"

text \<open>\<open>d.get(k, default)\<close> on a dictionary written as an association list.\<close>

definition dict_get :: "('k \<times> 'v) list \<Rightarrow> 'k \<Rightarrow> 'v \<Rightarrow> 'v" where
  "dict_get d k dflt = (case map_of d k of None \<Rightarrow> dflt | Some v \<Rightarrow> v)"

section \<open>Text helpers\<close>

text \<open>\<open>str(n)\<close> of an integer, as the f-strings of services.py print it.\<close>

definition digit_char :: "nat \<Rightarrow> char" where
  "digit_char d = ''0123456789'' ! d"

fun str_nat :: "nat \<Rightarrow> string" where
  "str_nat n = (if n < 10 then [digit_char n] else str_nat (n div 10) @ [digit_char (n mod 10)])"

definition str_int :: "int \<Rightarrow> string" where
  "str_int i = (if i < 0 then CHR ''-'' # str_nat (nat (- i)) else str_nat (nat i))"

text \<open>
  The characters \<open>str.split()\<close> and \<open>str.strip()\<close> treat as whitespace, among the code
  points 0 to 255: 9 to 13, 28 to 32, 133 and 160.
\<close>

definition is_space :: "char \<Rightarrow> bool" where
  "is_space c = (of_char c \<in> set [9, 10, 11, 12, 13, 28, 29, 30, 31, 32, 133, 160 :: nat])"

definition strip :: "string \<Rightarrow> string" where
  "strip s = rev (dropWhile is_space (rev (dropWhile is_space s)))"

function split :: "string \<Rightarrow> string list" where
  "split s =
     (case dropWhile is_space s of
        [] \<Rightarrow> []
      | c # cs \<Rightarrow>
          takeWhile (\<lambda>x. \<not> is_space x) (c # cs)
            # split (dropWhile (\<lambda>x. \<not> is_space x) (c # cs)))"
  by pat_completeness auto
termination
proof (relation "measure length")
  show "wf (measure length)" by simp
next
  fix s :: string and c cs
  assume h: "dropWhile is_space s = c # cs"
  have nsp: "\<not> is_space c"
    using h hd_dropWhile [of is_space s] by auto
  have "length (dropWhile (\<lambda>x. \<not> is_space x) (c # cs)) \<le> length cs"
    using nsp by (simp add: length_dropWhile_le)
  also have "length cs < length (dropWhile is_space s)"
    using h by simp
  also have "\<dots> \<le> length s"
    by (rule length_dropWhile_le)
  finally show "(dropWhile (\<lambda>x. \<not> is_space x) (c # cs), s) \<in> measure length"
    by simp
qed

text \<open>\<open>name.split()[0] if name.strip() else ""\<close>\<close>

definition title_of :: "string \<Rightarrow> error + string" where
  "title_of name =
     (if strip name \<noteq> []
      then (case split name of [] \<Rightarrow> Inl IndexError | t # ts \<Rightarrow> Inr t)
      else Inr '''')"

section \<open>Data access objects (dao.py)\<close>

text \<open>\<open>COALESCE(MAX(number), 0) + 1\<close> over the selected numbers.\<close>

fun sql_max :: "int list \<Rightarrow> int option" where
  "sql_max [] = None"
| "sql_max (x # xs) = (case sql_max xs of None \<Rightarrow> Some x | Some m \<Rightarrow> Some (max x m))"

definition coalesce :: "int option \<Rightarrow> int \<Rightarrow> int" where
  "coalesce v d = (case v of None \<Rightarrow> d | Some x \<Rightarrow> x)"

definition cust_key :: "string \<Rightarrow> int \<Rightarrow> customer \<Rightarrow> bool" where
  "cust_key sortcode number r = (c_sortcode r = sortcode \<and> c_number r = number)"

definition acc_key :: "string \<Rightarrow> int \<Rightarrow> account \<Rightarrow> bool" where
  "acc_key sortcode number r = (a_sortcode r = sortcode \<and> a_number r = number)"

definition acc_owner :: "string \<Rightarrow> int \<Rightarrow> account \<Rightarrow> bool" where
  "acc_owner sortcode customer_number r =
     (a_sortcode r = sortcode \<and> a_customer_number r = customer_number)"

definition CustomerDAO_get :: "db \<Rightarrow> string \<Rightarrow> int \<Rightarrow> customer option" where
  "CustomerDAO_get conn sortcode number = find (cust_key sortcode number) (customers conn)"

text \<open>An insert fails on a duplicate primary key.\<close>

definition CustomerDAO_create ::
  "db \<Rightarrow> string \<Rightarrow> int \<Rightarrow> string \<Rightarrow> string \<Rightarrow> string \<Rightarrow> int \<Rightarrow> string \<Rightarrow> error + db" where
  "CustomerDAO_create conn sortcode number name address date_of_birth credit_score cs_review_date =
     (if list_ex (cust_key sortcode number) (customers conn) then Inl IntegrityError
      else Inr (conn\<lparr>customers := customers conn @
        [\<lparr>c_sortcode = sortcode, c_number = number, c_name = name, c_address = address,
          c_date_of_birth = date_of_birth, c_credit_score = credit_score,
          c_cs_review_date = cs_review_date\<rparr>]\<rparr>))"

definition CustomerDAO_update ::
  "db \<Rightarrow> string \<Rightarrow> int \<Rightarrow> string option \<Rightarrow> string option \<Rightarrow> db \<times> bool" where
  "CustomerDAO_update conn sortcode number name address =
     (if name = None \<and> address = None then (conn, False)
      else
        (conn\<lparr>customers :=
           map (\<lambda>r. if cust_key sortcode number r
                     then r\<lparr>c_name := (case name of None \<Rightarrow> c_name r | Some v \<Rightarrow> v),
                            c_address := (case address of None \<Rightarrow> c_address r | Some v \<Rightarrow> v)\<rparr>
                     else r)
               (customers conn)\<rparr>,
         list_ex (cust_key sortcode number) (customers conn)))"

text \<open>
  Deleting a customer row that an account row still references violates the foreign key
  of the accounts table.
\<close>

definition CustomerDAO_delete :: "db \<Rightarrow> string \<Rightarrow> int \<Rightarrow> error + (db \<times> bool)" where
  "CustomerDAO_delete conn sortcode number =
     (if list_ex (cust_key sortcode number) (customers conn)
         \<and> list_ex (acc_owner sortcode number) (accounts conn)
      then Inl IntegrityError
      else Inr (conn\<lparr>customers := filter (\<lambda>r. \<not> cust_key sortcode number r) (customers conn)\<rparr>,
                list_ex (cust_key sortcode number) (customers conn)))"

definition CustomerDAO_next_number :: "db \<Rightarrow> string \<Rightarrow> int" where
  "CustomerDAO_next_number conn sortcode =
     coalesce (sql_max (map c_number (filter (\<lambda>r. c_sortcode r = sortcode) (customers conn)))) 0 + 1"

definition AccountDAO_get :: "db \<Rightarrow> string \<Rightarrow> int \<Rightarrow> account option" where
  "AccountDAO_get conn sortcode number = find (acc_key sortcode number) (accounts conn)"

text \<open>\<open>... ORDER BY number LIMIT ?\<close> with the default limit.\<close>

definition AccountDAO_get_by_customer :: "db \<Rightarrow> string \<Rightarrow> int \<Rightarrow> account list" where
  "AccountDAO_get_by_customer conn sortcode customer_number =
     take MAX_ACCOUNTS_PER_QUERY
       (sort_key a_number (filter (acc_owner sortcode customer_number) (accounts conn)))"

text \<open>
  An insert fails on a duplicate primary key, and when no customer row has the key
  \<open>(sortcode, customer_number)\<close>. Both balances are written as the literal 0.
\<close>

definition AccountDAO_create ::
  "db \<Rightarrow> string \<Rightarrow> int \<Rightarrow> int \<Rightarrow> string \<Rightarrow> int \<Rightarrow> string \<Rightarrow> int \<Rightarrow> error + db" where
  "AccountDAO_create conn sortcode number customer_number account_type interest_rate opened
       overdraft_limit =
     (if list_ex (acc_key sortcode number) (accounts conn)
         \<or> \<not> list_ex (cust_key sortcode customer_number) (customers conn)
      then Inl IntegrityError
      else Inr (conn\<lparr>accounts := accounts conn @
        [\<lparr>a_sortcode = sortcode, a_number = number, a_customer_number = customer_number,
          a_account_type = account_type, a_interest_rate = interest_rate, a_opened = opened,
          a_overdraft_limit = overdraft_limit, a_last_statement = None,
          a_next_statement = None, a_available_balance = 0, a_actual_balance = 0\<rparr>]\<rparr>))"

definition AccountDAO_update ::
  "db \<Rightarrow> string \<Rightarrow> int \<Rightarrow> string option \<Rightarrow> int option \<Rightarrow> int option \<Rightarrow> db \<times> bool" where
  "AccountDAO_update conn sortcode number account_type interest_rate overdraft_limit =
     (if account_type = None \<and> interest_rate = None \<and> overdraft_limit = None then (conn, False)
      else
        (conn\<lparr>accounts :=
           map (\<lambda>r. if acc_key sortcode number r
                     then r\<lparr>a_account_type :=
                              (case account_type of None \<Rightarrow> a_account_type r | Some v \<Rightarrow> v),
                            a_interest_rate :=
                              (case interest_rate of None \<Rightarrow> a_interest_rate r | Some v \<Rightarrow> v),
                            a_overdraft_limit :=
                              (case overdraft_limit of None \<Rightarrow> a_overdraft_limit r | Some v \<Rightarrow> v)\<rparr>
                     else r)
               (accounts conn)\<rparr>,
         list_ex (acc_key sortcode number) (accounts conn)))"

text \<open>The values an integer column of the store can hold.\<close>

definition sqlite_integer :: "int \<Rightarrow> bool" where
  "sqlite_integer i = (- (2 ^ 63) \<le> i \<and> i < 2 ^ 63)"

text \<open>
  The statement \<open>UPDATE accounts SET available_balance=?, actual_balance=? WHERE
  sortcode=? AND number=?\<close> once its values are bound, and \<open>update_balance\<close>,
  which binds them first: a balance outside the range of the column raises before the
  statement runs.
\<close>

definition set_balances :: "db \<Rightarrow> string \<Rightarrow> int \<Rightarrow> int \<Rightarrow> int \<Rightarrow> db \<times> bool" where
  "set_balances conn sortcode number available_balance actual_balance =
     (conn\<lparr>accounts :=
        map (\<lambda>r. if acc_key sortcode number r
                  then r\<lparr>a_available_balance := available_balance,
                         a_actual_balance := actual_balance\<rparr>
                  else r)
            (accounts conn)\<rparr>,
      list_ex (acc_key sortcode number) (accounts conn))"

definition AccountDAO_update_balance ::
  "db \<Rightarrow> string \<Rightarrow> int \<Rightarrow> int \<Rightarrow> int \<Rightarrow> error + (db \<times> bool)" where
  "AccountDAO_update_balance conn sortcode number available_balance actual_balance =
     (if sqlite_integer available_balance \<and> sqlite_integer actual_balance
      then Inr (set_balances conn sortcode number available_balance actual_balance)
      else Inl OverflowError)"

definition AccountDAO_delete :: "db \<Rightarrow> string \<Rightarrow> int \<Rightarrow> db \<times> bool" where
  "AccountDAO_delete conn sortcode number =
     (conn\<lparr>accounts := filter (\<lambda>r. \<not> acc_key sortcode number r) (accounts conn)\<rparr>,
      list_ex (acc_key sortcode number) (accounts conn))"

definition AccountDAO_next_number :: "db \<Rightarrow> string \<Rightarrow> int" where
  "AccountDAO_next_number conn sortcode =
     coalesce (sql_max (map a_number (filter (\<lambda>r. a_sortcode r = sortcode) (accounts conn)))) 0 + 1"

definition TransactionDAO_create ::
  "db \<Rightarrow> string \<Rightarrow> int \<Rightarrow> string \<Rightarrow> string \<Rightarrow> string \<Rightarrow> string \<Rightarrow> int \<Rightarrow> db" where
  "TransactionDAO_create conn sortcode account_number trans_date trans_time trans_type
       description amount =
     conn\<lparr>transactions := transactions conn @
       [\<lparr>t_sortcode = sortcode, t_account_number = account_number, t_trans_date = trans_date,
         t_trans_time = trans_time, t_trans_type = trans_type, t_description = description,
         t_amount = amount\<rparr>]\<rparr>"

section \<open>Credit scoring (credit.py)\<close>

text \<open>
  The agencies run in a pool; what the reduction sees of agency \<open>i\<close> is the outcome of
  \<open>f.result(timeout=10)\<close> on its future: \<open>Some score\<close>, or \<open>None\<close> when the future is
  not done in time and the call raises. The outcomes are a parameter \<open>probes\<close>.
  The list comprehension reads the futures in order and stops at the first that raises.
  A pool of no workers is refused by the executor with \<open>ValueError\<close>.
\<close>

fun collect_results :: "int option list \<Rightarrow> error + int list" where
  "collect_results [] = Inr []"
| "collect_results (None # fs) = Inl TimeoutError"
| "collect_results (Some s # fs) =
     (case collect_results fs of Inl e \<Rightarrow> Inl e | Inr ss \<Rightarrow> Inr (s # ss))"

definition credit_check :: "int \<Rightarrow> (nat \<Rightarrow> int option) \<Rightarrow> error + int" where
  "credit_check num_agencies probes =
     (if num_agencies \<le> 0 then Inl ValueError
      else
        (case collect_results (map probes [0..<nat num_agencies]) of
           Inl e \<Rightarrow> Inl e
         | Inr scores \<Rightarrow> Inr (sum_list scores div int (length scores))))"

section \<open>Business logic (services.py)\<close>

text \<open>
  Every service takes the connection state and returns it, as it stands when the service
  returns or raises, with the result: \<open>Inl\<close> an exception, \<open>Inr\<close> the returned value.
  The clock is a parameter: \<open>now k\<close> is the reading of \<open>datetime.now()\<close>
  (date and time, formatted) taken for the audit row written when the table holds
  \<open>k\<close> rows, and \<open>today\<close> is \<open>date.today().isoformat()\<close>.
\<close>

type_synonym clock = "nat \<Rightarrow> string \<times> string"

type_synonym 'a outcome = "db \<times> (error + 'a)"

record debit_credit_result =
  res_available_balance :: int
  res_actual_balance :: int

record transfer_result =
  from_balance :: int
  to_balance :: int

definition quote :: "string \<Rightarrow> string" where
  "quote s = CHR 0x27 # s @ [CHR 0x27]"

definition not_found :: "string \<Rightarrow> int \<Rightarrow> string" where
  "not_found what number = what @ '' '' @ str_int number @ '' not found''"

definition audit :: "clock \<Rightarrow> db \<Rightarrow> string \<Rightarrow> int \<Rightarrow> string \<Rightarrow> string \<Rightarrow> int \<Rightarrow> db" where
  "audit now conn sortcode account_number trans_type description amount =
     TransactionDAO_create conn sortcode account_number
       (fst (now (length (transactions conn)))) (snd (now (length (transactions conn))))
       trans_type description amount"

definition create_customer ::
  "clock \<Rightarrow> string \<Rightarrow> (nat \<Rightarrow> int option) \<Rightarrow> db \<Rightarrow> string \<Rightarrow> string \<Rightarrow> string \<Rightarrow> string
     \<Rightarrow> customer option outcome" where
  "create_customer now today probes conn name address date_of_birth sortcode =
     (case title_of name of
        Inl e \<Rightarrow> (conn, Inl e)
      | Inr title \<Rightarrow>
          if title \<notin> set VALID_TITLES
          then (conn, Inl (ValidationError (''Invalid title: '' @ quote title)))
          else
            let number = CustomerDAO_next_number conn sortcode in
            (case credit_check 5 probes of
               Inl e \<Rightarrow> (conn, Inl e)
             | Inr score \<Rightarrow>
                 (case CustomerDAO_create conn sortcode number name address date_of_birth
                         score today of
                    Inl e \<Rightarrow> (conn, Inl e)
                  | Inr conn1 \<Rightarrow>
                      let conn2 = audit now conn1 sortcode 0 ''OCC''
                                    (''Create customer '' @ str_int number) 0
                      in (conn2, Inr (CustomerDAO_get conn2 sortcode number)))))"

definition create_account ::
  "clock \<Rightarrow> string \<Rightarrow> db \<Rightarrow> int \<Rightarrow> string \<Rightarrow> int option \<Rightarrow> int option \<Rightarrow> string
     \<Rightarrow> account option outcome" where
  "create_account now today conn customer_number account_type interest_rate overdraft_limit
       sortcode =
     (if account_type \<notin> set VALID_ACCOUNT_TYPES
      then (conn, Inl (ValidationError (''Invalid account type: '' @ quote account_type)))
      else
        (case CustomerDAO_get conn sortcode customer_number of
           None \<Rightarrow> (conn, Inl (CustomerNotFound (not_found ''Customer'' customer_number)))
         | Some cust \<Rightarrow>
             let defaults = dict_get DEFAULT_RATES account_type [];
                 interest_rate' =
                   (case interest_rate of
                      None \<Rightarrow> dict_get defaults ''interest'' 0 | Some v \<Rightarrow> v);
                 overdraft_limit' =
                   (case overdraft_limit of
                      None \<Rightarrow> dict_get defaults ''overdraft'' 0 | Some v \<Rightarrow> v);
                 number = AccountDAO_next_number conn sortcode
             in
               (case AccountDAO_create conn sortcode number customer_number account_type
                       interest_rate' today overdraft_limit' of
                  Inl e \<Rightarrow> (conn, Inl e)
                | Inr conn1 \<Rightarrow>
                    let conn2 = audit now conn1 sortcode number ''OCA''
                                  (''Create account for cust '' @ str_int customer_number) 0
                    in (conn2, Inr (AccountDAO_get conn2 sortcode number)))))"

definition update_customer ::
  "db \<Rightarrow> int \<Rightarrow> string option \<Rightarrow> string option \<Rightarrow> string \<Rightarrow> customer option outcome" where
  "update_customer conn number name address sortcode =
     (case CustomerDAO_get conn sortcode number of
        None \<Rightarrow> (conn, Inl (CustomerNotFound (not_found ''Customer'' number)))
      | Some cust \<Rightarrow>
          let conn1 = fst (CustomerDAO_update conn sortcode number name address);
              updated = (conn1, Inr (CustomerDAO_get conn1 sortcode number))
          in
            (case name of
               None \<Rightarrow> updated
             | Some n \<Rightarrow>
                 (case title_of n of
                    Inl e \<Rightarrow> (conn, Inl e)
                  | Inr title \<Rightarrow>
                      if title \<notin> set VALID_TITLES
                      then (conn, Inl (ValidationError (''Invalid title: '' @ quote title)))
                      else updated)))"

definition update_account ::
  "db \<Rightarrow> int \<Rightarrow> string option \<Rightarrow> int option \<Rightarrow> int option \<Rightarrow> string
     \<Rightarrow> account option outcome" where
  "update_account conn number account_type interest_rate overdraft_limit sortcode =
     (case AccountDAO_get conn sortcode number of
        None \<Rightarrow> (conn, Inl (AccountNotFound (not_found ''Account'' number)))
      | Some acc \<Rightarrow>
          let conn1 = fst (AccountDAO_update conn sortcode number account_type
                             interest_rate overdraft_limit);
              updated = (conn1, Inr (AccountDAO_get conn1 sortcode number))
          in
            (case account_type of
               None \<Rightarrow> updated
             | Some ty \<Rightarrow>
                 if ty \<notin> set VALID_ACCOUNT_TYPES
                 then (conn, Inl (ValidationError (''Invalid account type: '' @ quote ty)))
                 else updated))"

definition delete_account :: "clock \<Rightarrow> db \<Rightarrow> int \<Rightarrow> string \<Rightarrow> bool outcome" where
  "delete_account now conn number sortcode =
     (case AccountDAO_get conn sortcode number of
        None \<Rightarrow> (conn, Inl (AccountNotFound (not_found ''Account'' number)))
      | Some acc \<Rightarrow>
          let conn1 = fst (AccountDAO_delete conn sortcode number);
              conn2 = audit now conn1 sortcode number ''ODA''
                        (''Delete account '' @ str_int number) 0
          in (conn2, Inr True))"

text \<open>The loop \<open>for acc in accounts: delete_account(conn, acc["number"], sortcode)\<close>.\<close>

fun delete_accounts :: "clock \<Rightarrow> db \<Rightarrow> string \<Rightarrow> account list \<Rightarrow> unit outcome" where
  "delete_accounts now conn sortcode [] = (conn, Inr ())"
| "delete_accounts now conn sortcode (acc # rest) =
     (case delete_account now conn (a_number acc) sortcode of
        (conn1, Inl e) \<Rightarrow> (conn1, Inl e)
      | (conn1, Inr ok) \<Rightarrow> delete_accounts now conn1 sortcode rest)"

definition delete_customer :: "clock \<Rightarrow> db \<Rightarrow> int \<Rightarrow> string \<Rightarrow> bool outcome" where
  "delete_customer now conn number sortcode =
     (case CustomerDAO_get conn sortcode number of
        None \<Rightarrow> (conn, Inl (CustomerNotFound (not_found ''Customer'' number)))
      | Some cust \<Rightarrow>
          (case delete_accounts now conn sortcode
                  (AccountDAO_get_by_customer conn sortcode number) of
             (conn1, Inl e) \<Rightarrow> (conn1, Inl e)
           | (conn1, Inr u) \<Rightarrow>
               (case CustomerDAO_delete conn1 sortcode number of
                  Inl e \<Rightarrow> (conn1, Inl e)
                | Inr (conn2, deleted) \<Rightarrow>
                    let conn3 = audit now conn2 sortcode 0 ''ODC''
                                  (''Delete customer '' @ str_int number) 0
                    in (conn3, Inr True))))"

definition transfer_funds ::
  "clock \<Rightarrow> db \<Rightarrow> int \<Rightarrow> int \<Rightarrow> int \<Rightarrow> string \<Rightarrow> transfer_result outcome" where
  "transfer_funds now conn from_number to_number amount sortcode =
     (case AccountDAO_get conn sortcode from_number of
        None \<Rightarrow> (conn, Inl (AccountNotFound (not_found ''From-account'' from_number)))
      | Some from_acc \<Rightarrow>
          (case AccountDAO_get conn sortcode to_number of
             None \<Rightarrow> (conn, Inl (AccountNotFound (not_found ''To-account'' to_number)))
           | Some to_acc \<Rightarrow>
               let new_from_avail = a_available_balance from_acc - amount;
                   new_from_actual = a_actual_balance from_acc - amount
               in
                 (case AccountDAO_update_balance conn sortcode from_number
                         new_from_avail new_from_actual of
                    Inl e \<Rightarrow> (conn, Inl e)
                  | Inr (conn1, found1) \<Rightarrow>
                      let new_to_avail = a_available_balance to_acc + amount;
                          new_to_actual = a_actual_balance to_acc + amount
                      in
                        (case AccountDAO_update_balance conn1 sortcode to_number
                                new_to_avail new_to_actual of
                           Inl e \<Rightarrow> (conn1, Inl e)
                         | Inr (conn2, found2) \<Rightarrow>
                             let conn3 = audit now conn2 sortcode from_number ''TFR''
                                           (''Transfer to '' @ str_int to_number) amount;
                                 conn4 = audit now conn3 sortcode to_number ''TFR''
                                           (''Transfer from '' @ str_int from_number) amount
                             in (conn4, Inr \<lparr>from_balance = new_from_actual,
                                              to_balance = new_to_actual\<rparr>)))))"

definition debit_credit ::
  "clock \<Rightarrow> db \<Rightarrow> int \<Rightarrow> int \<Rightarrow> bool \<Rightarrow> string \<Rightarrow> debit_credit_result outcome" where
  "debit_credit now conn number amount is_debit sortcode =
     (case AccountDAO_get conn sortcode number of
        None \<Rightarrow> (conn, Inl (AccountNotFound (not_found ''Account'' number)))
      | Some acc \<Rightarrow>
          let signed = (if is_debit then - amount else amount) in
          if is_debit \<and> a_account_type acc \<in> set [''MORTGAGE'', ''LOAN'']
          then (conn, Inl (ValidationError ''Cannot debit MORTGAGE/LOAN account''))
          else if is_debit \<and> a_available_balance acc + signed < 0
          then (conn, Inl (InsufficientFunds ''Insufficient funds for debit''))
          else
            let new_avail = a_available_balance acc + signed;
                new_actual = a_actual_balance acc + signed
            in
              (case AccountDAO_update_balance conn sortcode number new_avail new_actual of
                 Inl e \<Rightarrow> (conn, Inl e)
               | Inr (conn1, found) \<Rightarrow>
                   let ttype = (if is_debit then ''DEB'' else ''CRE'');
                       conn2 = audit now conn1 sortcode number ttype
                                 ((if is_debit then ''Debit'' else ''Credit'') @ '' ''
                                    @ str_int amount)
                                 (abs signed)
                   in (conn2, Inr \<lparr>res_available_balance = new_avail,
                                    res_actual_balance = new_actual\<rparr>)))"

section \<open>Requests (api.py)\<close>

text \<open>
  The routes that call a mutating service of services.py. Each request runs one service
  on its own connection with the configured sort code. The route catches a \<open>ServiceError\<close> and answers with a failure
  message, so the connection is committed as it stands; any other exception leaves the
  route and the connection is rolled back.
\<close>

datatype request =
  CreateCustomer string string string
  | CreateAccount int string "int option" "int option"
  | UpdateCustomer int "string option" "string option"
  | UpdateAccount int "string option" "int option" "int option"
  | DeleteAccount int
  | DeleteCustomer int
  | Transfer int int int
  | DebitCredit int int bool

definition raised :: "'a outcome \<Rightarrow> db \<times> error option" where
  "raised r = (fst r, case snd r of Inl e \<Rightarrow> Some e | Inr v \<Rightarrow> None)"

fun route :: "clock \<Rightarrow> string \<Rightarrow> (nat \<Rightarrow> int option) \<Rightarrow> db \<Rightarrow> request \<Rightarrow> db \<times> error option" where
  "route now today probes conn (CreateCustomer name address date_of_birth) =
     raised (create_customer now today probes conn name address date_of_birth SORT_CODE)"
| "route now today probes conn (CreateAccount customer_number account_type interest_rate
       overdraft_limit) =
     raised (create_account now today conn customer_number account_type interest_rate
       overdraft_limit SORT_CODE)"
| "route now today probes conn (UpdateCustomer number name address) =
     raised (update_customer conn number name address SORT_CODE)"
| "route now today probes conn (UpdateAccount number account_type interest_rate
       overdraft_limit) =
     raised (update_account conn number account_type interest_rate overdraft_limit SORT_CODE)"
| "route now today probes conn (DeleteAccount number) =
     raised (delete_account now conn number SORT_CODE)"
| "route now today probes conn (DeleteCustomer number) =
     raised (delete_customer now conn number SORT_CODE)"
| "route now today probes conn (Transfer from_account to_account amount) =
     raised (transfer_funds now conn from_account to_account amount SORT_CODE)"
| "route now today probes conn (DebitCredit number amount is_debit) =
     raised (debit_credit now conn number amount is_debit SORT_CODE)"

definition unit_of_work ::
  "clock \<Rightarrow> string \<Rightarrow> (nat \<Rightarrow> int option) \<Rightarrow> db \<Rightarrow> request \<Rightarrow> db" where
  "unit_of_work now today probes conn req =
     (case route now today probes conn req of
        (conn', None) \<Rightarrow> conn'
      | (conn', Some e) \<Rightarrow> if is_ServiceError e then conn' else conn)"

text \<open>A sequence of requests, each with the date and the agency outcomes of its moment.\<close>

fun serve :: "clock \<Rightarrow> db \<Rightarrow> (string \<times> (nat \<Rightarrow> int option) \<times> request) list \<Rightarrow> db" where
  "serve now conn [] = conn"
| "serve now conn ((today, probes, req) # rest) =
     serve now (unit_of_work now today probes conn req) rest"

text \<open>
  Customer creations one after the other on one connection, as a script would run them:
  the first exception ends the run.
\<close>

fun create_customers ::
  "clock \<Rightarrow> string \<Rightarrow> db \<Rightarrow> string \<Rightarrow> ((nat \<Rightarrow> int option) \<times> string \<times> string \<times> string) list
     \<Rightarrow> customer option list outcome" where
  "create_customers now today conn sortcode [] = (conn, Inr [])"
| "create_customers now today conn sortcode ((probes, name, address, date_of_birth) # rest) =
     (case create_customer now today probes conn name address date_of_birth sortcode of
        (conn1, Inl e) \<Rightarrow> (conn1, Inl e)
      | (conn1, Inr c) \<Rightarrow>
          (case create_customers now today conn1 sortcode rest of
             (conn2, Inl e) \<Rightarrow> (conn2, Inl e)
           | (conn2, Inr cs) \<Rightarrow> (conn2, Inr (c # cs))))"

section \<open>Observations on a state\<close>

text \<open>
  The difference between the two balances of a row, and the differences found among the
  rows of one account key.
\<close>

definition gap :: "account \<Rightarrow> int" where
  "gap r = a_available_balance r - a_actual_balance r"

definition gaps :: "string \<Rightarrow> int \<Rightarrow> db \<Rightarrow> int set" where
  "gaps sortcode number conn = set (map gap (filter (acc_key sortcode number) (accounts conn)))"

text \<open>The audit table read as type codes with the account numbers they are tagged with.\<close>

definition audit_tags :: "db \<Rightarrow> (string \<times> int) list" where
  "audit_tags conn = map (\<lambda>t. (t_trans_type t, t_account_number t)) (transactions conn)"

text \<open>The first whitespace-delimited token of a text, empty when there is none.\<close>

definition first_token :: "string \<Rightarrow> string" where
  "first_token s = takeWhile (\<lambda>x. \<not> is_space x) (dropWhile is_space s)"

section \<open>Sample states\<close>

definition noon :: clock where
  "noon k = (''2024-01-01'', ''120000'')"

definition agencies :: "nat \<Rightarrow> int option" where
  "agencies i = Some (100 * int i + 300)"

definition sample_customer :: customer where
  "sample_customer =
     \<lparr>c_sortcode = SORT_CODE, c_number = 1, c_name = ''Mr A'', c_address = ''addr'',
      c_date_of_birth = ''1990-01-15'', c_credit_score = 500,
      c_cs_review_date = ''2024-01-01''\<rparr>"

definition sample_account :: "string \<Rightarrow> int \<Rightarrow> int \<Rightarrow> account" where
  "sample_account account_type balance number =
     \<lparr>a_sortcode = SORT_CODE, a_number = number, a_customer_number = 1,
      a_account_type = account_type, a_interest_rate = 0, a_opened = ''2024-01-01'',
      a_overdraft_limit = 0, a_last_statement = None, a_next_statement = None,
      a_available_balance = balance, a_actual_balance = balance\<rparr>"

definition empty_db :: db where
  "empty_db = \<lparr>customers = [], accounts = [], transactions = []\<rparr>"

text \<open>One customer with a current account holding 5000 and a mortgage account.\<close>

definition bank :: db where
  "bank =
     \<lparr>customers = [sample_customer],
      accounts = [sample_account ''CURRENT'' 5000 1, sample_account ''MORTGAGE'' 100000 2],
      transactions = []\<rparr>"

text \<open>One customer who owns the accounts 1 to \<open>n\<close>.\<close>

definition bank_with :: "int \<Rightarrow> db" where
  "bank_with n =
     \<lparr>customers = [sample_customer],
      accounts = map (sample_account ''CURRENT'' 0) [1..n],
      transactions = []\<rparr>"

text \<open>Every row of the account key holds the same value in both balance fields.\<close>

definition balanced :: "string \<Rightarrow> int \<Rightarrow> db \<Rightarrow> bool" where
  "balanced sortcode number conn =
     list_all (\<lambda>r. a_available_balance r = a_actual_balance r)
       (filter (acc_key sortcode number) (accounts conn))"

section \<open>Lemmas on the store\<close>

lemma find_map_upd:
  assumes "\<And>r. P (f r) = P r"
  shows "find P (map (\<lambda>r. if P r then f r else r) xs) = map_option f (find P xs)"
  using assms by (induction xs) auto

lemma get_set_balances_same:
  "AccountDAO_get (fst (set_balances conn sortcode number av ac)) sortcode number =
     map_option (\<lambda>r. r\<lparr>a_available_balance := av, a_actual_balance := ac\<rparr>)
       (AccountDAO_get conn sortcode number)"
proof -
  have "find (acc_key sortcode number)
          (map (\<lambda>r. if acc_key sortcode number r
                    then r\<lparr>a_available_balance := av, a_actual_balance := ac\<rparr> else r)
             (accounts conn))
        = map_option (\<lambda>r. r\<lparr>a_available_balance := av, a_actual_balance := ac\<rparr>)
            (find (acc_key sortcode number) (accounts conn))"
    by (rule find_map_upd) (simp add: acc_key_def)
  then show ?thesis
    by (simp add: AccountDAO_get_def set_balances_def)
qed

lemma get_audit [simp]:
  "AccountDAO_get (audit now conn s n ty d a) sortcode number = AccountDAO_get conn sortcode number"
  "CustomerDAO_get (audit now conn s n ty d a) sortcode number = CustomerDAO_get conn sortcode number"
  by (simp_all add: audit_def TransactionDAO_create_def AccountDAO_get_def CustomerDAO_get_def)

lemma audit_fields [simp]:
  "accounts (audit now conn s n ty d a) = accounts conn"
  "customers (audit now conn s n ty d a) = customers conn"
  "transactions (audit now conn s n ty d a) = transactions conn @
     [\<lparr>t_sortcode = s, t_account_number = n,
       t_trans_date = fst (now (length (transactions conn))),
       t_trans_time = snd (now (length (transactions conn))),
       t_trans_type = ty, t_description = d, t_amount = a\<rparr>]"
  by (simp_all add: audit_def TransactionDAO_create_def)

lemma set_balances_fields [simp]:
  "customers (fst (set_balances conn sortcode number av ac)) = customers conn"
  "transactions (fst (set_balances conn sortcode number av ac)) = transactions conn"
  by (simp_all add: set_balances_def)

lemma update_balance_cases:
  "AccountDAO_update_balance conn sortcode number av ac =
     (if sqlite_integer av \<and> sqlite_integer ac
      then Inr (fst (set_balances conn sortcode number av ac),
                snd (set_balances conn sortcode number av ac))
      else Inl OverflowError)"
  by (simp add: AccountDAO_update_balance_def)

lemma bank_get_1:
  "AccountDAO_get bank SORT_CODE 1 = Some (sample_account ''CURRENT'' 5000 1)"
  by code_simp

section \<open>Debit and credit\<close>

text \<open>
  Claim C3. A debit on an existing account raises \<open>ValidationError\<close> when the account
  type is LOAN or MORTGAGE, whatever the balance; otherwise it raises
  \<open>InsufficientFunds\<close> exactly when the available balance minus the amount is negative,
  the overdraft limit playing no part; and otherwise it returns the new balances,
  unless one of them is outside the range of the store, when the binding raises
  \<open>OverflowError\<close>. On every error the connection is the one the service was given:
  no balance has moved and no audit row has been written. This holds for every amount.
  For a non-negative amount the range of the store plays no part: when the two balances
  of the row are values of the store and the available balance exceeds the actual one by
  at most \<open>2 ^ 63\<close>, as it does whenever the two are equal, a debit that passes both
  checks writes values of the store, so it succeeds.
\<close>

theorem debit_guard:
  assumes "AccountDAO_get conn sortcode number = Some acc"
  shows "debit_credit now conn number amount True sortcode =
     (if a_account_type acc = ''LOAN'' \<or> a_account_type acc = ''MORTGAGE''
      then (conn, Inl (ValidationError ''Cannot debit MORTGAGE/LOAN account''))
      else if a_available_balance acc - amount < 0
      then (conn, Inl (InsufficientFunds ''Insufficient funds for debit''))
      else if sqlite_integer (a_available_balance acc - amount)
            \<and> sqlite_integer (a_actual_balance acc - amount)
      then (fst (debit_credit now conn number amount True sortcode),
            Inr \<lparr>res_available_balance = a_available_balance acc - amount,
                 res_actual_balance = a_actual_balance acc - amount\<rparr>)
      else (conn, Inl OverflowError))
   \<and> (0 \<le> amount \<and> sqlite_integer (a_available_balance acc)
        \<and> sqlite_integer (a_actual_balance acc)
        \<and> a_available_balance acc - a_actual_balance acc \<le> 2 ^ 63
        \<and> \<not> a_available_balance acc - amount < 0
      \<longrightarrow> sqlite_integer (a_available_balance acc - amount)
          \<and> sqlite_integer (a_actual_balance acc - amount))"
proof
  show "debit_credit now conn number amount True sortcode =
     (if a_account_type acc = ''LOAN'' \<or> a_account_type acc = ''MORTGAGE''
      then (conn, Inl (ValidationError ''Cannot debit MORTGAGE/LOAN account''))
      else if a_available_balance acc - amount < 0
      then (conn, Inl (InsufficientFunds ''Insufficient funds for debit''))
      else if sqlite_integer (a_available_balance acc - amount)
            \<and> sqlite_integer (a_actual_balance acc - amount)
      then (fst (debit_credit now conn number amount True sortcode),
            Inr \<lparr>res_available_balance = a_available_balance acc - amount,
                 res_actual_balance = a_actual_balance acc - amount\<rparr>)
      else (conn, Inl OverflowError))"
    using assms unfolding debit_credit_def
    by (auto simp: Let_def update_balance_cases split_beta)
  show "0 \<le> amount \<and> sqlite_integer (a_available_balance acc)
        \<and> sqlite_integer (a_actual_balance acc)
        \<and> a_available_balance acc - a_actual_balance acc \<le> 2 ^ 63
        \<and> \<not> a_available_balance acc - amount < 0
      \<longrightarrow> sqlite_integer (a_available_balance acc - amount)
          \<and> sqlite_integer (a_actual_balance acc - amount)"
    by (auto simp: sqlite_integer_def)
qed

lemma sample_balances_storable:
  "sqlite_integer 5000" "sqlite_integer 1000" "sqlite_integer 4750" "sqlite_integer 5250"
  by (simp_all add: sqlite_integer_def)

theorem debit_guard_witness:
  "AccountDAO_get bank SORT_CODE 1 = Some (sample_account ''CURRENT'' 5000 1)
   \<and> debit_credit noon bank 1 6000 True SORT_CODE
       = (bank, Inl (InsufficientFunds ''Insufficient funds for debit''))
   \<and> snd (debit_credit noon bank 1 4000 True SORT_CODE)
       = Inr \<lparr>res_available_balance = 1000, res_actual_balance = 1000\<rparr>"
proof -
  have a: "debit_credit noon bank 1 6000 True SORT_CODE
      = (bank, Inl (InsufficientFunds ''Insufficient funds for debit''))"
    using debit_guard [OF bank_get_1, of noon 6000] by (simp add: sample_account_def)
  have b: "debit_credit noon bank 1 4000 True SORT_CODE
      = (fst (debit_credit noon bank 1 4000 True SORT_CODE),
         Inr \<lparr>res_available_balance = 1000, res_actual_balance = 1000\<rparr>)"
    using debit_guard [OF bank_get_1, of noon 4000] sample_balances_storable
    by (simp add: sample_account_def)
  have c: "snd (debit_credit noon bank 1 4000 True SORT_CODE)
      = Inr \<lparr>res_available_balance = 1000, res_actual_balance = 1000\<rparr>"
    by (subst b) simp
  show ?thesis
    using bank_get_1 a c by simp
qed

text \<open>
  Claim C4. When \<open>debit_credit\<close> returns on an existing account, the stored available
  balance is the old one minus the amount for a debit and plus the amount for a credit,
  the stored actual balance has moved by the same delta (so the two are equal after
  whenever they were equal before), the returned balances are the stored ones, and the
  audit table has grown by exactly one row, of type DEB or CRE, carrying the absolute
  amount.
\<close>

theorem debit_credit_additive:
  assumes "AccountDAO_get conn sortcode number = Some acc"
    and "debit_credit now conn number amount is_debit sortcode = (conn', Inr res)"
  shows "\<exists>acc'. AccountDAO_get conn' sortcode number = Some acc'
      \<and> a_available_balance acc' = a_available_balance acc + (if is_debit then - amount else amount)
      \<and> a_actual_balance acc' = a_actual_balance acc + (if is_debit then - amount else amount)
      \<and> (a_available_balance acc = a_actual_balance acc
           \<longrightarrow> a_available_balance acc' = a_actual_balance acc')
      \<and> res_available_balance res = a_available_balance acc'
      \<and> res_actual_balance res = a_actual_balance acc'
      \<and> transactions conn' = transactions conn @
           [\<lparr>t_sortcode = sortcode, t_account_number = number,
             t_trans_date = fst (now (length (transactions conn))),
             t_trans_time = snd (now (length (transactions conn))),
             t_trans_type = (if is_debit then ''DEB'' else ''CRE''),
             t_description = (if is_debit then ''Debit '' else ''Credit '') @ str_int amount,
             t_amount = \<bar>amount\<bar>\<rparr>]"
  using assms unfolding debit_credit_def
  by (auto simp: Let_def update_balance_cases split_beta get_set_balances_same
      split: if_splits)

theorem debit_credit_additive_witness:
  "\<exists>conn' res acc'.
      debit_credit noon bank 1 4000 True SORT_CODE = (conn', Inr res)
      \<and> AccountDAO_get conn' SORT_CODE 1 = Some acc'
      \<and> a_available_balance acc' = 1000 \<and> a_actual_balance acc' = 1000
      \<and> res_available_balance res = 1000 \<and> res_actual_balance res = 1000
      \<and> map t_trans_type (transactions conn') = [''DEB'']
      \<and> map t_amount (transactions conn') = [4000]"
proof -
  obtain conn' res where r: "debit_credit noon bank 1 4000 True SORT_CODE = (conn', Inr res)"
    using bank_get_1 sample_balances_storable
    by (simp add: debit_credit_def Let_def sample_account_def update_balance_cases split_beta)
  have tr: "transactions bank = []" by (simp add: bank_def)
  show ?thesis
    using debit_credit_additive [OF bank_get_1 r] r tr
    by (auto simp: sample_account_def)
qed

section \<open>Credit scoring\<close>

lemma collect_results_all_Some: "collect_results (map Some scores) = Inr scores"
  by (induction scores) auto

lemma collect_results_None: "None \<in> set fs \<Longrightarrow> collect_results fs = Inl TimeoutError"
proof (induction fs rule: collect_results.induct)
  case 1
  then show ?case by simp
next
  case (2 fs)
  then show ?case by simp
next
  case (3 s fs)
  then show ?case by auto
qed

lemma sum_list_bounds:
  fixes xs :: "int list"
  assumes "list_all (\<lambda>s. lo \<le> s \<and> s \<le> hi) xs"
  shows "lo * int (length xs) \<le> sum_list xs \<and> sum_list xs \<le> hi * int (length xs)"
  using assms by (induction xs) (auto simp: algebra_simps)

text \<open>
  Claim C8. With five agencies whose futures all deliver a score between 1 and 999,
  \<open>credit_check\<close> returns the sum of the five scores divided by five, rounded down,
  and that value lies between 1 and 999. When the future of any of the five agencies
  times out, \<open>credit_check\<close> raises and returns no average.
\<close>

theorem credit_check_mean:
  "(map probes [0..<5] = map Some scores \<and> list_all (\<lambda>s. 1 \<le> s \<and> s \<le> 999) scores
      \<longrightarrow> credit_check 5 probes = Inr (sum_list scores div 5)
          \<and> 1 \<le> sum_list scores div 5 \<and> sum_list scores div 5 \<le> 999)
   \<and> (i < 5 \<and> probes i = None \<longrightarrow> credit_check 5 probes = Inl TimeoutError)"
proof (intro conjI impI)
  assume h: "map probes [0..<5] = map Some scores \<and> list_all (\<lambda>s. 1 \<le> s \<and> s \<le> 999) scores"
  then have len: "length scores = 5"
    by (metis length_map length_upt diff_zero)
  have b: "1 * int (length scores) \<le> sum_list scores \<and> sum_list scores \<le> 999 * int (length scores)"
    using h sum_list_bounds [of 1 999 scores] by blast
  have lo: "5 \<le> sum_list scores" and hi: "sum_list scores \<le> 4995"
    using b len by simp_all
  show "credit_check 5 probes = Inr (sum_list scores div 5)"
    using h len by (simp add: credit_check_def collect_results_all_Some)
  show "1 \<le> sum_list scores div 5" using lo by presburger
  show "sum_list scores div 5 \<le> 999" using hi by presburger
next
  assume h: "i < 5 \<and> probes i = None"
  then have "None \<in> set (map probes [0..<5])"
    by (metis atLeastLessThan_iff image_eqI list.set_map set_upt zero_le)
  then have "collect_results (map probes [0..<nat 5]) = Inl TimeoutError"
    using collect_results_None by simp
  then show "credit_check 5 probes = Inl TimeoutError"
    by (simp add: credit_check_def)
qed

theorem credit_check_mean_witness:
  "credit_check 5 agencies = Inr 500
   \<and> credit_check 5 (agencies(3 := None)) = Inl TimeoutError"
proof -
  have m: "map agencies [0..<5] = map Some [300, 400, 500, 600, 700]"
    by (simp add: agencies_def upt_rec)
  have a: "list_all (\<lambda>s. 1 \<le> s \<and> s \<le> 999) [300, 400, 500, 600, 700 :: int]"
    by simp
  have n: "(3::nat) < 5 \<and> (agencies(3 := None)) 3 = None"
    by simp
  show ?thesis
    using credit_check_mean [of agencies "[300, 400, 500, 600, 700]" 0] m a
      credit_check_mean [of "agencies(3 := None)" "[]" 3] n
    by simp
qed

section \<open>Identifier allocation and account creation\<close>

lemma sql_max_ge: "x \<in> set xs \<Longrightarrow> \<exists>m. sql_max xs = Some m \<and> x \<le> m"
  by (induction xs) (auto split: option.splits)

lemma sql_max_Max: "xs \<noteq> [] \<Longrightarrow> sql_max xs = Some (Max (set xs))"
proof (induction xs)
  case Nil
  then show ?case by simp
next
  case (Cons x xs)
  show ?case
  proof (cases "xs = []")
    case True
    then show ?thesis by simp
  next
    case False
    then have "sql_max xs = Some (Max (set xs))" using Cons.IH by simp
    then show ?thesis using False by simp
  qed
qed

lemma next_number_above:
  assumes "x \<in> set xs"
  shows "x < coalesce (sql_max xs) 0 + 1"
  using sql_max_ge [OF assms] by (auto simp: coalesce_def)


lemma customer_number_fresh:
  "\<not> list_ex (cust_key sortcode (CustomerDAO_next_number conn sortcode)) (customers conn)"
proof
  assume "list_ex (cust_key sortcode (CustomerDAO_next_number conn sortcode)) (customers conn)"
  then obtain r where r: "r \<in> set (customers conn)" "c_sortcode r = sortcode"
      "c_number r = CustomerDAO_next_number conn sortcode"
    by (auto simp: list_ex_iff cust_key_def)
  then have "r \<in> set (filter (\<lambda>r. c_sortcode r = sortcode) (customers conn))"
    by simp
  then have "c_number r \<in> c_number ` set (filter (\<lambda>r. c_sortcode r = sortcode) (customers conn))"
    by (rule imageI)
  then have "c_number r \<in> set (map c_number (filter (\<lambda>r. c_sortcode r = sortcode) (customers conn)))"
    by (simp only: set_map)
  from next_number_above [OF this] r(3) show False
    by (simp add: CustomerDAO_next_number_def)
qed

lemma find_append_fresh: "\<not> list_ex P xs \<Longrightarrow> P x \<Longrightarrow> find P (xs @ [x]) = Some x"
  by (induction xs) auto





lemma bank_customer_1: "CustomerDAO_get bank SORT_CODE 1 = Some sample_customer"
  by code_simp


section \<open>Titles\<close>

lemma dropWhile_space_Cons: "dropWhile is_space s = c # cs \<Longrightarrow> \<not> is_space c"
  using hd_dropWhile [of is_space s] by auto

lemma strip_Nil_iff: "strip s = [] \<longleftrightarrow> dropWhile is_space s = []"
proof (cases "dropWhile is_space s")
  case Nil
  then show ?thesis unfolding strip_def by (simp del: dropWhile_eq_Nil_conv)
next
  case (Cons c cs)
  then have "\<not> is_space c" by (rule dropWhile_space_Cons)
  then have "dropWhile is_space (rev (c # cs)) \<noteq> []"
    by (auto simp: dropWhile_eq_Nil_conv)
  then show ?thesis using Cons by (simp add: strip_def)
qed

lemma title_of_first_token: "title_of name = Inr (first_token name)"
proof (cases "dropWhile is_space name")
  case Nil
  then show ?thesis
    unfolding title_of_def first_token_def strip_Nil_iff by (simp del: dropWhile_eq_Nil_conv)
next
  case (Cons c cs)
  then have "split name =
      takeWhile (\<lambda>x. \<not> is_space x) (c # cs) # split (dropWhile (\<lambda>x. \<not> is_space x) (c # cs))"
    by (subst split.simps) simp
  then show ?thesis using Cons by (simp add: title_of_def strip_Nil_iff first_token_def)
qed

lemma first_token_blank:
  assumes "list_all is_space name"
  shows "first_token name = []"
proof -
  have "dropWhile is_space name = []"
    using assms by (simp add: list_all_iff)
  then show ?thesis
    unfolding first_token_def by (simp del: dropWhile_eq_Nil_conv)
qed

lemma first_token_no_space: "list_all (\<lambda>x. \<not> is_space x) (first_token name)"
  unfolding first_token_def list_all_iff by (auto dest: set_takeWhileD)

lemma get_customer_update_same:
  "CustomerDAO_get (fst (CustomerDAO_update conn sortcode number (Some name) address))
       sortcode number =
     map_option (\<lambda>r. r\<lparr>c_name := (case Some name of None \<Rightarrow> c_name r | Some v \<Rightarrow> v),
                        c_address := (case address of None \<Rightarrow> c_address r | Some v \<Rightarrow> v)\<rparr>)
       (CustomerDAO_get conn sortcode number)"
proof -
  have "find (cust_key sortcode number)
          (map (\<lambda>r. if cust_key sortcode number r
                    then r\<lparr>c_name := (case Some name of None \<Rightarrow> c_name r | Some v \<Rightarrow> v),
                           c_address := (case address of None \<Rightarrow> c_address r | Some v \<Rightarrow> v)\<rparr>
                    else r)
             (customers conn))
        = map_option (\<lambda>r. r\<lparr>c_name := (case Some name of None \<Rightarrow> c_name r | Some v \<Rightarrow> v),
                        c_address := (case address of None \<Rightarrow> c_address r | Some v \<Rightarrow> v)\<rparr>)
            (find (cust_key sortcode number) (customers conn))"
    by (rule find_map_upd) (simp add: cust_key_def)
  then show ?thesis
    unfolding CustomerDAO_get_def CustomerDAO_update_def by simp
qed

lemma create_customer_valid:
  assumes sc: "credit_check 5 probes = Inr score"
    and ti: "first_token name \<in> set VALID_TITLES"
  shows "\<exists>conn' c.
      create_customer now today probes conn name address date_of_birth sortcode
        = (conn', Inr (Some c))
      \<and> CustomerDAO_get conn' sortcode (c_number c) = Some c
      \<and> c_number c = CustomerDAO_next_number conn sortcode
      \<and> c_sortcode c = sortcode \<and> c_name c = name \<and> c_credit_score c = score
      \<and> customers conn' = customers conn @ [c]
      \<and> accounts conn' = accounts conn
      \<and> map t_trans_type (transactions conn') = map t_trans_type (transactions conn) @ [''OCC'']"
proof -
  let ?n = "CustomerDAO_next_number conn sortcode"
  let ?row = "\<lparr>c_sortcode = sortcode, c_number = ?n, c_name = name, c_address = address,
      c_date_of_birth = date_of_birth, c_credit_score = score, c_cs_review_date = today\<rparr>"
  let ?conn1 = "conn\<lparr>customers := customers conn @ [?row]\<rparr>"
  let ?conn2 = "audit now ?conn1 sortcode 0 ''OCC'' (''Create customer '' @ str_int ?n) 0"
  have ins: "CustomerDAO_create conn sortcode ?n name address date_of_birth score today
      = Inr ?conn1"
    using customer_number_fresh [of sortcode conn] by (simp add: CustomerDAO_create_def)
  have got: "CustomerDAO_get ?conn2 sortcode ?n = Some ?row"
    using customer_number_fresh [of sortcode conn]
    by (simp add: CustomerDAO_get_def find_append_fresh cust_key_def)
  have run: "create_customer now today probes conn name address date_of_birth sortcode
      = (?conn2, Inr (Some ?row))"
    using sc ti ins got by (simp add: create_customer_def Let_def title_of_first_token)
  show ?thesis
    using run got by (intro exI [of _ ?conn2] exI [of _ ?row]) simp
qed

text \<open>
  Claim C6. For every name, the title that \<open>create_customer\<close> and \<open>update_customer\<close>
  check is the first whitespace-delimited token of the name, which is the empty text
  when the name is blank, and the empty text is a valid title. \<open>create_customer\<close>
  (the agencies delivering a score) and \<open>update_customer\<close> with a name supplied (the
  customer existing) return the stored row exactly when that title is one of
  \<open>VALID_TITLES\<close>, and otherwise raise \<open>ValidationError\<close> and leave the connection
  as it was.
\<close>

theorem title_rule:
  "title_of name = Inr (first_token name)
   \<and> (list_all is_space name \<longrightarrow> first_token name = '''')
   \<and> '''' \<in> set VALID_TITLES
   \<and> (credit_check 5 probes = Inr score \<longrightarrow>
        (if first_token name \<in> set VALID_TITLES
         then \<exists>conn' c. create_customer now today probes conn name address date_of_birth sortcode
                 = (conn', Inr (Some c)) \<and> c_name c = name
         else create_customer now today probes conn name address date_of_birth sortcode
                 = (conn, Inl (ValidationError (''Invalid title: '' @ quote (first_token name))))))
   \<and> (CustomerDAO_get conn sortcode number = Some cust \<longrightarrow>
        (if first_token name \<in> set VALID_TITLES
         then \<exists>conn' c. update_customer conn number (Some name) new_address sortcode
                 = (conn', Inr (Some c)) \<and> c_name c = name
         else update_customer conn number (Some name) new_address sortcode
                 = (conn, Inl (ValidationError (''Invalid title: '' @ quote (first_token name))))))"
proof (intro conjI impI)
  show "title_of name = Inr (first_token name)" by (rule title_of_first_token)
  show "'''' \<in> set VALID_TITLES" by (simp add: VALID_TITLES_def)
next
  assume "list_all is_space name"
  then show "first_token name = ''''" by (rule first_token_blank)
next
  assume sc: "credit_check 5 probes = Inr score"
  show "if first_token name \<in> set VALID_TITLES
         then \<exists>conn' c. create_customer now today probes conn name address date_of_birth sortcode
                 = (conn', Inr (Some c)) \<and> c_name c = name
         else create_customer now today probes conn name address date_of_birth sortcode
                 = (conn, Inl (ValidationError (''Invalid title: '' @ quote (first_token name))))"
  proof (cases "first_token name \<in> set VALID_TITLES")
    case True
    then show ?thesis using create_customer_valid [OF sc True] by metis
  next
    case False
    then show ?thesis by (simp add: create_customer_def title_of_first_token)
  qed
next
  assume ex: "CustomerDAO_get conn sortcode number = Some cust"
  show "if first_token name \<in> set VALID_TITLES
         then \<exists>conn' c. update_customer conn number (Some name) new_address sortcode
                 = (conn', Inr (Some c)) \<and> c_name c = name
         else update_customer conn number (Some name) new_address sortcode
                 = (conn, Inl (ValidationError (''Invalid title: '' @ quote (first_token name))))"
    using ex
    by (simp add: update_customer_def Let_def title_of_first_token get_customer_update_same)
qed

lemma agencies_score: "credit_check 5 agencies = Inr 500"
  by code_simp

lemma first_token_samples:
  "first_token ''Mr John Smith'' = ''Mr''"
  "first_token ''King John'' = ''King''"
  "first_token ''Mr A'' = ''Mr''"
  "first_token ''Mrs B'' = ''Mrs''"
  by code_simp+

theorem title_rule_witness:
  "title_of ''Mr John Smith'' = Inr ''Mr''
   \<and> credit_check 5 agencies = Inr 500
   \<and> CustomerDAO_get bank SORT_CODE 1 = Some sample_customer
   \<and> (\<exists>conn' c.
        create_customer noon ''2024-01-02'' agencies bank ''Mr John Smith'' ''1 Oak Ave''
          ''1990-01-15'' SORT_CODE = (conn', Inr (Some c))
        \<and> c_name c = ''Mr John Smith'')
   \<and> (\<exists>conn' c.
        update_customer bank 1 (Some ''Mr John Smith'') None SORT_CODE = (conn', Inr (Some c))
        \<and> c_name c = ''Mr John Smith'')
   \<and> create_customer noon ''2024-01-02'' agencies bank ''King John'' ''1 Oak Ave''
          ''1990-01-15'' SORT_CODE
        = (bank, Inl (ValidationError (''Invalid title: '' @ quote ''King'')))"
proof -
  have v: "''Mr'' \<in> set VALID_TITLES" "''King'' \<notin> set VALID_TITLES"
    by (simp_all add: VALID_TITLES_def)
  show ?thesis
    using v agencies_score bank_customer_1 first_token_samples
      title_rule [of "''Mr John Smith''" agencies 500 noon "''2024-01-02''" bank
        "''1 Oak Ave''" "''1990-01-15''" SORT_CODE 1 sample_customer None]
      title_rule [of "''King John''" agencies 500 noon "''2024-01-02''" bank
        "''1 Oak Ave''" "''1990-01-15''" SORT_CODE 1 sample_customer None]
    by simp
qed

section \<open>Sequential customer creation\<close>

lemma sql_max_snoc:
  assumes "\<forall>y\<in>set xs. y < x"
  shows "sql_max (xs @ [x]) = Some x"
  using assms by (induction xs) auto

lemma next_number_after_create:
  assumes "customers conn' = customers conn @ [c]"
    and "c_sortcode c = sortcode"
    and "c_number c = CustomerDAO_next_number conn sortcode"
  shows "CustomerDAO_next_number conn' sortcode = CustomerDAO_next_number conn sortcode + 1"
proof -
  let ?ns = "map c_number (filter (\<lambda>r. c_sortcode r = sortcode) (customers conn))"
  have "\<forall>y\<in>set ?ns. y < c_number c"
    using next_number_above [of _ ?ns] assms(3)
    by (simp add: CustomerDAO_next_number_def)
  then have "sql_max (?ns @ [c_number c]) = Some (c_number c)"
    by (rule sql_max_snoc)
  then show ?thesis
    using assms by (simp add: CustomerDAO_next_number_def coalesce_def)
qed

lemma create_customers_numbers:
  assumes "list_all (\<lambda>(probes, name, address, date_of_birth).
             first_token name \<in> set VALID_TITLES
             \<and> (\<exists>score. credit_check 5 probes = Inr score)) reqs"
  shows "\<exists>conn' cs. create_customers now today conn sortcode reqs = (conn', Inr cs)
      \<and> map (map_option c_number) cs =
          map (\<lambda>i. Some (CustomerDAO_next_number conn sortcode + int i)) [0..<length reqs]"
  using assms
proof (induction reqs arbitrary: conn)
  case Nil
  then show ?case by simp
next
  case (Cons req reqs)
  obtain probes name address date_of_birth where req: "req = (probes, name, address, date_of_birth)"
    by (cases req) auto
  from Cons.prems req obtain score where
    ti: "first_token name \<in> set VALID_TITLES" and sc: "credit_check 5 probes = Inr score"
    by auto
  from create_customer_valid [OF sc ti, of now today conn address date_of_birth sortcode]
  obtain conn1 c where
    run: "create_customer now today probes conn name address date_of_birth sortcode
            = (conn1, Inr (Some c))"
    and num: "c_number c = CustomerDAO_next_number conn sortcode"
    and sco: "c_sortcode c = sortcode"
    and cus: "customers conn1 = customers conn @ [c]"
    by blast
  have nxt: "CustomerDAO_next_number conn1 sortcode = CustomerDAO_next_number conn sortcode + 1"
    using next_number_after_create [OF cus sco num] .
  from Cons.prems have "list_all (\<lambda>(probes, name, address, date_of_birth).
             first_token name \<in> set VALID_TITLES
             \<and> (\<exists>score. credit_check 5 probes = Inr score)) reqs"
    by simp
  from Cons.IH [OF this, of conn1] obtain conn2 cs where
    rest: "create_customers now today conn1 sortcode reqs = (conn2, Inr cs)"
    and nums: "map (map_option c_number) cs =
          map (\<lambda>i. Some (CustomerDAO_next_number conn1 sortcode + int i)) [0..<length reqs]"
    by blast
  have all: "create_customers now today conn sortcode (req # reqs) = (conn2, Inr (Some c # cs))"
    using run rest req by simp
  have sh: "[0..<length (req # reqs)] = 0 # map Suc [0..<length reqs]"
    by (simp add: upt_conv_Cons map_Suc_upt del: upt_Suc)
  have "map (map_option c_number) (Some c # cs) =
      map (\<lambda>i. Some (CustomerDAO_next_number conn sortcode + int i)) [0..<length (req # reqs)]"
    unfolding sh using num nums nxt by (simp add: add.assoc)
  with all show ?case by blast
qed

text \<open>
  Claim C7. \<open>next_number\<close>, for customers and for accounts, is a query on the state:
  it returns the greatest number among the rows of the sort code plus one, or 1 when
  the sort code has no row. Customer creations run one after the other on one
  connection, from a state with no customer of the sort code, each with a valid title
  and agencies that deliver a score, all return, and the numbers of the rows they
  return are 1, 2, 3 and so on, in order.
\<close>

theorem next_number_sequence:
  "CustomerDAO_next_number conn sortcode =
     (let ns = map c_number (filter (\<lambda>r. c_sortcode r = sortcode) (customers conn))
      in if ns = [] then 1 else Max (set ns) + 1)
   \<and> AccountDAO_next_number conn sortcode =
     (let ns = map a_number (filter (\<lambda>r. a_sortcode r = sortcode) (accounts conn))
      in if ns = [] then 1 else Max (set ns) + 1)
   \<and> (filter (\<lambda>r. c_sortcode r = sortcode) (customers conn) = []
        \<and> list_all (\<lambda>(probes, name, address, date_of_birth).
             first_token name \<in> set VALID_TITLES
             \<and> (\<exists>score. credit_check 5 probes = Inr score)) reqs
      \<longrightarrow> (\<exists>conn' cs. create_customers now today conn sortcode reqs = (conn', Inr cs)
            \<and> map (map_option c_number) cs = map (\<lambda>i. Some (int i)) [1..<Suc (length reqs)]))"
proof (intro conjI impI)
  show "CustomerDAO_next_number conn sortcode =
     (let ns = map c_number (filter (\<lambda>r. c_sortcode r = sortcode) (customers conn))
      in if ns = [] then 1 else Max (set ns) + 1)"
    using sql_max_Max [of "map c_number (filter (\<lambda>r. c_sortcode r = sortcode) (customers conn))"]
    by (auto simp: CustomerDAO_next_number_def coalesce_def Let_def)
  show "AccountDAO_next_number conn sortcode =
     (let ns = map a_number (filter (\<lambda>r. a_sortcode r = sortcode) (accounts conn))
      in if ns = [] then 1 else Max (set ns) + 1)"
    using sql_max_Max [of "map a_number (filter (\<lambda>r. a_sortcode r = sortcode) (accounts conn))"]
    by (auto simp: AccountDAO_next_number_def coalesce_def Let_def)
next
  assume h: "filter (\<lambda>r. c_sortcode r = sortcode) (customers conn) = []
        \<and> list_all (\<lambda>(probes, name, address, date_of_birth).
             first_token name \<in> set VALID_TITLES
             \<and> (\<exists>score. credit_check 5 probes = Inr score)) reqs"
  then have one: "CustomerDAO_next_number conn sortcode = 1"
    by (simp add: CustomerDAO_next_number_def coalesce_def)
  from h create_customers_numbers [of reqs now today conn sortcode] obtain conn' cs where
    run: "create_customers now today conn sortcode reqs = (conn', Inr cs)"
    and nums: "map (map_option c_number) cs =
          map (\<lambda>i. Some (CustomerDAO_next_number conn sortcode + int i)) [0..<length reqs]"
    by blast
  have "map (\<lambda>i. Some (int i)) [1..<Suc (length reqs)] =
      map (\<lambda>i. Some (int i)) (map Suc [0..<length reqs])"
    by (simp only: map_Suc_upt One_nat_def)
  also have "\<dots> = map (\<lambda>i. Some (1 + int i)) [0..<length reqs]"
    by (simp add: comp_def add.commute)
  finally have "map (map_option c_number) cs = map (\<lambda>i. Some (int i)) [1..<Suc (length reqs)]"
    using nums one by simp
  with run show "\<exists>conn' cs. create_customers now today conn sortcode reqs = (conn', Inr cs)
            \<and> map (map_option c_number) cs = map (\<lambda>i. Some (int i)) [1..<Suc (length reqs)]"
    by blast
qed

theorem next_number_sequence_witness:
  "CustomerDAO_next_number bank SORT_CODE = 2
   \<and> AccountDAO_next_number bank SORT_CODE = 3
   \<and> filter (\<lambda>r. c_sortcode r = SORT_CODE) (customers empty_db) = []
   \<and> (\<exists>conn' cs.
        create_customers noon ''2024-01-02'' empty_db SORT_CODE
          [(agencies, ''Mr A'', ''addr'', ''''), (agencies, ''Mrs B'', ''addr'', '''')]
          = (conn', Inr cs)
        \<and> map (map_option c_number) cs = [Some 1, Some 2])"
proof -
  have v: "''Mr'' \<in> set VALID_TITLES" "''Mrs'' \<in> set VALID_TITLES"
    by (simp_all add: VALID_TITLES_def)
  have e: "filter (\<lambda>r. c_sortcode r = SORT_CODE) (customers empty_db) = []"
    by (simp add: empty_db_def)
  have n: "CustomerDAO_next_number bank SORT_CODE = 2" "AccountDAO_next_number bank SORT_CODE = 3"
    by code_simp+
  have u: "[1..<Suc (Suc (Suc 0))] = [1, 2]"
    by (simp add: upt_rec)
  show ?thesis
    using v e n u agencies_score first_token_samples
      next_number_sequence [of empty_db SORT_CODE
        "[(agencies, ''Mr A'', ''addr'', ''''), (agencies, ''Mrs B'', ''addr'', '''')]"
        noon "''2024-01-02''"]
    by simp
qed

section \<open>Transfers\<close>

lemma find_map_other:
  assumes "\<And>r. Q r \<Longrightarrow> \<not> P r" and "\<And>r. Q r \<Longrightarrow> \<not> P (f r)"
  shows "find P (map (\<lambda>r. if Q r then f r else r) xs) = find P xs"
  using assms by (induction xs) auto

lemma get_set_balances_other:
  assumes "number \<noteq> other"
  shows "AccountDAO_get (fst (set_balances conn sortcode other av ac)) sortcode number
     = AccountDAO_get conn sortcode number"
proof -
  have "find (acc_key sortcode number)
          (map (\<lambda>r. if acc_key sortcode other r
                    then r\<lparr>a_available_balance := av, a_actual_balance := ac\<rparr> else r)
             (accounts conn))
        = find (acc_key sortcode number) (accounts conn)"
    using assms by (intro find_map_other) (auto simp: acc_key_def)
  then show ?thesis
    by (simp add: AccountDAO_get_def set_balances_def)
qed

text \<open>
  Between two different existing accounts, the four new balances being values of the
  store, the transfer does what its name says: no sufficiency check, both fields of the
  source down by the amount, both fields of the destination up by it, two TFR rows, and
  the two new actual balances returned.
\<close>

lemma transfer_funds_distinct:
  assumes f: "AccountDAO_get conn sortcode from_number = Some from_acc"
    and t: "AccountDAO_get conn sortcode to_number = Some to_acc"
    and d: "from_number \<noteq> to_number"
    and r: "sqlite_integer (a_available_balance from_acc - amount)"
      "sqlite_integer (a_actual_balance from_acc - amount)"
      "sqlite_integer (a_available_balance to_acc + amount)"
      "sqlite_integer (a_actual_balance to_acc + amount)"
  shows "\<exists>conn'. transfer_funds now conn from_number to_number amount sortcode
        = (conn', Inr \<lparr>from_balance = a_actual_balance from_acc - amount,
                       to_balance = a_actual_balance to_acc + amount\<rparr>)
      \<and> AccountDAO_get conn' sortcode from_number
          = Some (from_acc\<lparr>a_available_balance := a_available_balance from_acc - amount,
                           a_actual_balance := a_actual_balance from_acc - amount\<rparr>)
      \<and> AccountDAO_get conn' sortcode to_number
          = Some (to_acc\<lparr>a_available_balance := a_available_balance to_acc + amount,
                         a_actual_balance := a_actual_balance to_acc + amount\<rparr>)
      \<and> customers conn' = customers conn
      \<and> transactions conn' = transactions conn @
           [\<lparr>t_sortcode = sortcode, t_account_number = from_number,
             t_trans_date = fst (now (length (transactions conn))),
             t_trans_time = snd (now (length (transactions conn))),
             t_trans_type = ''TFR'',
             t_description = ''Transfer to '' @ str_int to_number, t_amount = amount\<rparr>,
            \<lparr>t_sortcode = sortcode, t_account_number = to_number,
             t_trans_date = fst (now (Suc (length (transactions conn)))),
             t_trans_time = snd (now (Suc (length (transactions conn)))),
             t_trans_type = ''TFR'',
             t_description = ''Transfer from '' @ str_int from_number, t_amount = amount\<rparr>]"
  using f t d d [symmetric] r unfolding transfer_funds_def
  by (simp add: Let_def update_balance_cases split_beta get_set_balances_same
      get_set_balances_other)

lemma transfer_funds_absent:
  "AccountDAO_get conn sortcode from_number = None \<Longrightarrow>
     transfer_funds now conn from_number to_number amount sortcode
       = (conn, Inl (AccountNotFound (''From-account '' @ str_int from_number @ '' not found'')))"
  "AccountDAO_get conn sortcode from_number = Some from_acc \<Longrightarrow>
   AccountDAO_get conn sortcode to_number = None \<Longrightarrow>
     transfer_funds now conn from_number to_number amount sortcode
       = (conn, Inl (AccountNotFound (''To-account '' @ str_int to_number @ '' not found'')))"
  by (simp_all add: transfer_funds_def not_found_def)

text \<open>
  Claim C2, at a transfer from account 1, which holds 5000, to itself, of 100. The
  destination was read before the source was written, so the second write puts 5100 in
  both fields of the one row: the source has not gone down by the amount, and the
  returned \<open>from_balance\<close>, 4900, is not the stored balance.
\<close>

theorem transfer_funds_same_account:
  "map_option a_available_balance (AccountDAO_get bank SORT_CODE 1) = Some 5000
   \<and> map_option a_actual_balance (AccountDAO_get bank SORT_CODE 1) = Some 5000
   \<and> map_option a_available_balance
        (AccountDAO_get (fst (transfer_funds noon bank 1 1 100 SORT_CODE)) SORT_CODE 1)
       = Some 5100
   \<and> map_option a_actual_balance
        (AccountDAO_get (fst (transfer_funds noon bank 1 1 100 SORT_CODE)) SORT_CODE 1)
       = Some 5100
   \<and> snd (transfer_funds noon bank 1 1 100 SORT_CODE)
       = Inr \<lparr>from_balance = 4900, to_balance = 5100\<rparr>"
  by code_simp

text \<open>
  Claim C10, as amended. Take an existing account and an amount \<open>a\<close>, and the four
  values the transfer from the account to itself writes: the two balances minus \<open>a\<close>
  and the two balances plus \<open>a\<close>. When all four are values of the store, the transfer
  returns; both stored balances of the account end at the old value plus \<open>a\<close>, the
  write for the destination replacing the write for the source; and the result reports
  the old actual balance minus \<open>a\<close> as \<open>from_balance\<close> and plus \<open>a\<close> as
  \<open>to_balance\<close>. So for every such amount other than zero the stored balance has
  changed and the reported \<open>from_balance\<close> is not the stored one. When one of the four
  is not a value of the store, the transfer raises \<open>OverflowError\<close> and returns
  nothing.
\<close>

theorem self_transfer:
  assumes "AccountDAO_get conn sortcode n = Some acc"
  shows "(sqlite_integer (a_available_balance acc - a) \<and> sqlite_integer (a_actual_balance acc - a)
        \<and> sqlite_integer (a_available_balance acc + a)
        \<and> sqlite_integer (a_actual_balance acc + a)
      \<longrightarrow> (\<exists>conn' acc'.
            transfer_funds now conn n n a sortcode
              = (conn', Inr \<lparr>from_balance = a_actual_balance acc - a,
                             to_balance = a_actual_balance acc + a\<rparr>)
            \<and> AccountDAO_get conn' sortcode n = Some acc'
            \<and> a_available_balance acc' = a_available_balance acc + a
            \<and> a_actual_balance acc' = a_actual_balance acc + a
            \<and> (a \<noteq> 0 \<longrightarrow> a_available_balance acc' \<noteq> a_available_balance acc
                         \<and> a_actual_balance acc' \<noteq> a_actual_balance acc
                         \<and> a_actual_balance acc - a \<noteq> a_actual_balance acc')))
   \<and> (\<not> (sqlite_integer (a_available_balance acc - a)
           \<and> sqlite_integer (a_actual_balance acc - a)
           \<and> sqlite_integer (a_available_balance acc + a)
           \<and> sqlite_integer (a_actual_balance acc + a))
      \<longrightarrow> snd (transfer_funds now conn n n a sortcode) = Inl OverflowError)"
  using assms unfolding transfer_funds_def
  by (auto simp: Let_def update_balance_cases split_beta get_set_balances_same)

theorem self_transfer_witness:
  "AccountDAO_get bank SORT_CODE 1 = Some (sample_account ''CURRENT'' 5000 1)
   \<and> sqlite_integer (5000 - 250) \<and> sqlite_integer (5000 + 250)
   \<and> (\<exists>conn' acc'.
        transfer_funds noon bank 1 1 250 SORT_CODE
          = (conn', Inr \<lparr>from_balance = 4750, to_balance = 5250\<rparr>)
        \<and> AccountDAO_get conn' SORT_CODE 1 = Some acc'
        \<and> a_available_balance acc' = 5250 \<and> a_actual_balance acc' = 5250)
   \<and> \<not> sqlite_integer (5000 + 9223372036854775807)
   \<and> snd (transfer_funds noon bank 1 1 9223372036854775807 SORT_CODE) = Inl OverflowError"
proof -
  have big: "\<not> sqlite_integer (5000 + 9223372036854775807)"
    by (simp add: sqlite_integer_def)
  show ?thesis
    using bank_get_1 sample_balances_storable big
      self_transfer [OF bank_get_1, of 250 noon]
      self_transfer [OF bank_get_1, of 9223372036854775807 noon]
    by (auto simp: sample_account_def)
qed

text \<open>
  Claim C10 as first stated, for every amount, fails at two amounts. At the amount zero
  the stored row is unchanged and the reported \<open>from_balance\<close> is the stored balance.
  At the amount \<open>2 ^ 63 - 1\<close> on the balance 5000 the write for the destination is
  outside the range of the store: the transfer raises \<open>OverflowError\<close>, nothing is
  reported, and the request is rolled back.
\<close>

theorem self_transfer_exceptions:
  "AccountDAO_get (fst (transfer_funds noon bank 1 1 0 SORT_CODE)) SORT_CODE 1
     = AccountDAO_get bank SORT_CODE 1
   \<and> map_option a_actual_balance (AccountDAO_get bank SORT_CODE 1) = Some 5000
   \<and> snd (transfer_funds noon bank 1 1 0 SORT_CODE)
       = Inr \<lparr>from_balance = 5000, to_balance = 5000\<rparr>
   \<and> snd (transfer_funds noon bank 1 1 9223372036854775807 SORT_CODE) = Inl OverflowError
   \<and> accounts (unit_of_work noon ''2024-01-02'' agencies bank
                  (Transfer 1 1 9223372036854775807))
       = accounts bank"
  by code_simp

section \<open>The two balances move together\<close>

lemma find_SomeD: "find P xs = Some x \<Longrightarrow> x \<in> set xs \<and> P x"
  by (induction xs) (auto split: if_splits)

lemma balanced_gaps: "balanced sortcode number conn \<longleftrightarrow> gaps sortcode number conn \<subseteq> {0}"
  by (auto simp: balanced_def gaps_def gap_def list_all_iff)

lemma gaps_audit [simp]: "gaps s n (audit now conn s' n' ty d a) = gaps s n conn"
  by (simp add: gaps_def)

lemma gaps_set_balances:
  assumes "acc_key s' n' acc"
    and "gaps s n conn \<subseteq> G"
    and "acc_key s n acc \<Longrightarrow> gap acc \<in> G"
    and "av - ac = gap acc"
  shows "gaps s n (fst (set_balances conn s' n' av ac)) \<subseteq> G"
proof
  fix x
  assume "x \<in> gaps s n (fst (set_balances conn s' n' av ac))"
  then obtain r where r: "r \<in> set (accounts conn)"
    and k: "acc_key s n (if acc_key s' n' r
              then r\<lparr>a_available_balance := av, a_actual_balance := ac\<rparr> else r)"
    and x: "x = gap (if acc_key s' n' r
              then r\<lparr>a_available_balance := av, a_actual_balance := ac\<rparr> else r)"
    by (auto simp: gaps_def set_balances_def)
  show "x \<in> G"
  proof (cases "acc_key s' n' r")
    case True
    then have "acc_key s n acc"
      using k assms(1) by (simp add: acc_key_def)
    then have "gap acc \<in> G" by (rule assms(3))
    moreover have "x = gap acc"
      using x True assms(4) by (simp add: gap_def)
    ultimately show ?thesis by simp
  next
    case False
    then have "x \<in> gaps s n conn"
      using r k x by (auto simp: gaps_def)
    then show ?thesis using assms(2) by blast
  qed
qed

lemma gaps_found:
  assumes "AccountDAO_get conn s' n' = Some acc"
  shows "acc_key s' n' acc" and "acc_key s n acc \<Longrightarrow> gap acc \<in> gaps s n conn"
  using find_SomeD [of "acc_key s' n'" "accounts conn" acc] assms
  by (auto simp: AccountDAO_get_def gaps_def)

lemma gaps_debit_credit:
  "gaps s n (fst (debit_credit now conn number amount is_debit sortcode)) \<subseteq> gaps s n conn"
proof (cases "AccountDAO_get conn sortcode number")
  case None
  then show ?thesis by (simp add: debit_credit_def)
next
  case (Some acc)
  have "gaps s n (fst (set_balances conn sortcode number
          (a_available_balance acc + d) (a_actual_balance acc + d))) \<subseteq> gaps s n conn" for d
    by (rule gaps_set_balances [where acc = acc])
      (use gaps_found [OF Some] in \<open>auto simp: gap_def\<close>)
  then show ?thesis
    using Some by (simp add: debit_credit_def Let_def update_balance_cases split_beta)
qed

lemma gaps_transfer_funds:
  "gaps s n (fst (transfer_funds now conn from_number to_number amount sortcode))
     \<subseteq> gaps s n conn"
proof (cases "AccountDAO_get conn sortcode from_number")
  case None
  then show ?thesis by (simp add: transfer_funds_def)
next
  case f: (Some from_acc)
  show ?thesis
  proof (cases "AccountDAO_get conn sortcode to_number")
    case None
    then show ?thesis using f by (simp add: transfer_funds_def)
  next
    case t: (Some to_acc)
    let ?conn1 = "fst (set_balances conn sortcode from_number
        (a_available_balance from_acc - amount) (a_actual_balance from_acc - amount))"
    have one: "gaps s n ?conn1 \<subseteq> gaps s n conn"
      by (rule gaps_set_balances [where acc = from_acc])
        (use gaps_found [OF f] in \<open>auto simp: gap_def\<close>)
    have two: "gaps s n (fst (set_balances ?conn1 sortcode to_number
        (a_available_balance to_acc + amount) (a_actual_balance to_acc + amount)))
        \<subseteq> gaps s n conn"
      by (rule gaps_set_balances [where acc = to_acc])
        (use gaps_found [OF t] one in \<open>auto simp: gap_def\<close>)
    show ?thesis
      using f t one two
      by (simp add: transfer_funds_def Let_def update_balance_cases split_beta)
  qed
qed

lemma gaps_create_account:
  "gaps s n (fst (create_account now today conn customer_number account_type interest_rate
      overdraft_limit sortcode)) \<subseteq> insert 0 (gaps s n conn)"
  by (auto simp: create_account_def Let_def AccountDAO_create_def gaps_def gap_def
      split: option.splits sum.splits if_splits)

lemma gaps_update_account:
  "gaps s n (fst (update_account conn number account_type interest_rate overdraft_limit
      sortcode)) \<subseteq> gaps s n conn"
proof -
  have "gaps s n (fst (AccountDAO_update conn sortcode number account_type interest_rate
      overdraft_limit)) \<subseteq> gaps s n conn"
    by (auto simp: AccountDAO_update_def gaps_def gap_def acc_key_def split: if_splits)
  then show ?thesis
    by (auto simp: update_account_def Let_def split: option.splits)
qed

lemma gaps_delete_account:
  "gaps s n (fst (delete_account now conn number sortcode)) \<subseteq> gaps s n conn"
  by (auto simp: delete_account_def Let_def AccountDAO_delete_def gaps_def
      split: option.splits)

lemma gaps_delete_accounts:
  "gaps s n (fst (delete_accounts now conn sortcode accs)) \<subseteq> gaps s n conn"
proof (induction accs arbitrary: conn)
  case Nil
  then show ?case by simp
next
  case (Cons acc accs)
  obtain conn1 r where step: "delete_account now conn (a_number acc) sortcode = (conn1, r)"
    by (cases "delete_account now conn (a_number acc) sortcode") auto
  have one: "gaps s n conn1 \<subseteq> gaps s n conn"
    using gaps_delete_account [of s n now conn "a_number acc" sortcode] step by simp
  show ?case
  proof (cases r)
    case (Inl e)
    then show ?thesis using step one by simp
  next
    case (Inr ok)
    then show ?thesis
      using step one Cons.IH [of conn1] by auto
  qed
qed

lemma gaps_delete_customer:
  "gaps s n (fst (delete_customer now conn number sortcode)) \<subseteq> gaps s n conn"
proof (cases "CustomerDAO_get conn sortcode number")
  case None
  then show ?thesis by (simp add: delete_customer_def)
next
  case (Some cust)
  obtain conn1 r where loop: "delete_accounts now conn sortcode
      (AccountDAO_get_by_customer conn sortcode number) = (conn1, r)"
    by (cases "delete_accounts now conn sortcode (AccountDAO_get_by_customer conn sortcode number)")
      auto
  have one: "gaps s n conn1 \<subseteq> gaps s n conn"
    using gaps_delete_accounts [of s n now conn sortcode] loop
    by (metis fst_conv)
  show ?thesis
    using Some loop one
    by (auto simp: delete_customer_def CustomerDAO_delete_def Let_def gaps_def
        split: sum.splits if_splits)
qed

lemma gaps_create_customer:
  "gaps s n (fst (create_customer now today probes conn name address date_of_birth sortcode))
     = gaps s n conn"
  by (auto simp: create_customer_def Let_def CustomerDAO_create_def gaps_def
      split: sum.splits if_splits)

lemma gaps_update_customer:
  "gaps s n (fst (update_customer conn number name address sortcode)) = gaps s n conn"
  by (auto simp: update_customer_def Let_def CustomerDAO_update_def gaps_def
      split: option.splits sum.splits if_splits)

lemma gaps_route:
  "gaps s n (fst (route now today probes conn req)) \<subseteq> insert 0 (gaps s n conn)"
proof (cases req)
  case (CreateCustomer name address date_of_birth)
  then show ?thesis by (simp add: raised_def gaps_create_customer subset_insertI)
next
  case (CreateAccount customer_number account_type interest_rate overdraft_limit)
  then show ?thesis by (simp add: raised_def gaps_create_account)
next
  case (UpdateCustomer number name address)
  then show ?thesis by (simp add: raised_def gaps_update_customer subset_insertI)
next
  case (UpdateAccount number account_type interest_rate overdraft_limit)
  then show ?thesis
    using gaps_update_account [of s n conn number account_type interest_rate overdraft_limit]
    by (auto simp: raised_def)
next
  case (DeleteAccount number)
  then show ?thesis
    using gaps_delete_account [of s n now conn number] by (auto simp: raised_def)
next
  case (DeleteCustomer number)
  then show ?thesis
    using gaps_delete_customer [of s n now conn number] by (auto simp: raised_def)
next
  case (Transfer from_account to_account amount)
  then show ?thesis
    using gaps_transfer_funds [of s n now conn from_account to_account amount]
    by (auto simp: raised_def)
next
  case (DebitCredit number amount is_debit)
  then show ?thesis
    using gaps_debit_credit [of s n now conn number amount is_debit] by (auto simp: raised_def)
qed

lemma gaps_unit_of_work:
  "gaps s n (unit_of_work now today probes conn req) \<subseteq> insert 0 (gaps s n conn)"
proof -
  have "unit_of_work now today probes conn req = fst (route now today probes conn req)
      \<or> unit_of_work now today probes conn req = conn"
    by (auto simp: unit_of_work_def split: prod.splits option.splits)
  then show ?thesis
    using gaps_route [of s n now today probes conn req] by auto
qed

lemma gaps_serve: "gaps s n (serve now conn reqs) \<subseteq> insert 0 (gaps s n conn)"
proof (induction reqs arbitrary: conn)
  case Nil
  then show ?case by auto
next
  case (Cons req reqs)
  obtain today probes q where req: "req = (today, probes, q)"
    by (cases req) auto
  have "gaps s n (serve now (unit_of_work now today probes conn q) reqs)
      \<subseteq> insert 0 (gaps s n (unit_of_work now today probes conn q))"
    by (rule Cons.IH)
  also have "\<dots> \<subseteq> insert 0 (gaps s n conn)"
    using gaps_unit_of_work [of s n now today probes conn q] by auto
  finally show ?case using req by simp
qed

text \<open>
  Claim C5. After any sequence of requests (customer and account creation, updates,
  deletions, transfers, debits and credits), the difference between the available and
  the actual balance of every row of an account key is a difference the key had at the
  start, or zero, the difference of a newly created account: no operation moves one
  field without the other. So an account whose two balances are equal at the start has
  them equal after the sequence.
\<close>

theorem balances_move_together:
  "gaps sortcode number (serve now conn reqs) \<subseteq> insert 0 (gaps sortcode number conn)
   \<and> (balanced sortcode number conn \<longrightarrow> balanced sortcode number (serve now conn reqs))"
  using gaps_serve [of sortcode number now conn reqs]
  by (auto simp: balanced_gaps)

theorem balances_move_together_witness:
  "balanced SORT_CODE 1 bank
   \<and> balanced SORT_CODE 1
        (serve noon bank
           [(''2024-01-02'', agencies, Transfer 1 2 100),
            (''2024-01-02'', agencies, DebitCredit 1 50 False),
            (''2024-01-03'', agencies, Transfer 1 1 70)])"
proof -
  have b: "balanced SORT_CODE 1 bank"
    by code_simp
  show ?thesis
    using b balances_move_together [of SORT_CODE 1 noon bank
      "[(''2024-01-02'', agencies, Transfer 1 2 100),
        (''2024-01-02'', agencies, DebitCredit 1 50 False),
        (''2024-01-03'', agencies, Transfer 1 1 70)]"]
    by blast
qed

section \<open>Cascading deletion\<close>

lemma delete_customer_absent:
  "CustomerDAO_get conn sortcode number = None \<Longrightarrow>
     delete_customer now conn number sortcode
       = (conn, Inl (CustomerNotFound (''Customer '' @ str_int number @ '' not found'')))"
  by (simp add: delete_customer_def not_found_def)

text \<open>
  Claim C1, at a customer who owns the 21 accounts numbered 1 to 21. The accounts to
  delete are read with the page size of \<open>AccountDAO_get_by_customer\<close>, so the loop
  deletes the accounts 1 to 20 and writes 20 ODA rows; account 21 remains, the deletion
  of the customer row then violates the foreign key of the accounts table, and
  \<open>delete_customer\<close> raises \<open>IntegrityError\<close>: the customer row is still there and no
  ODC row is written. With 20 accounts the cascade is complete.
\<close>

theorem delete_customer_page_limit:
  "length (AccountDAO_get_by_customer (bank_with 21) SORT_CODE 1) = 20
   \<and> snd (delete_customer noon (bank_with 21) 1 SORT_CODE) = Inl IntegrityError
   \<and> map a_number (accounts (fst (delete_customer noon (bank_with 21) 1 SORT_CODE))) = [21]
   \<and> map c_number (customers (fst (delete_customer noon (bank_with 21) 1 SORT_CODE))) = [1]
   \<and> map t_trans_type (transactions (fst (delete_customer noon (bank_with 21) 1 SORT_CODE)))
       = replicate 20 ''ODA''
   \<and> snd (delete_customer noon (bank_with 20) 1 SORT_CODE) = Inr True
   \<and> accounts (fst (delete_customer noon (bank_with 20) 1 SORT_CODE)) = []
   \<and> customers (fst (delete_customer noon (bank_with 20) 1 SORT_CODE)) = []
   \<and> map t_trans_type (transactions (fst (delete_customer noon (bank_with 20) 1 SORT_CODE)))
       = replicate 20 ''ODA'' @ [''ODC'']"
  by code_simp

lemma find_list_ex: "list_ex P xs \<Longrightarrow> \<exists>x. find P xs = Some x"
  by (induction xs) auto

lemma delete_account_present:
  assumes "list_ex (acc_key sortcode number) (accounts conn)"
  shows "delete_account now conn number sortcode =
     (audit now (fst (AccountDAO_delete conn sortcode number)) sortcode number ''ODA''
        (''Delete account '' @ str_int number) 0, Inr True)"
  using find_list_ex [OF assms] by (auto simp: delete_account_def AccountDAO_get_def Let_def)

lemma delete_accounts_all:
  assumes "distinct (map a_number accs)"
    and "list_all (\<lambda>a. list_ex (acc_key sortcode (a_number a)) (accounts conn)) accs"
  shows "\<exists>conn'. delete_accounts now conn sortcode accs = (conn', Inr ())
      \<and> accounts conn' =
          filter (\<lambda>r. \<not> (a_sortcode r = sortcode \<and> a_number r \<in> a_number ` set accs))
            (accounts conn)
      \<and> customers conn' = customers conn
      \<and> audit_tags conn' = audit_tags conn @ map (\<lambda>a. (''ODA'', a_number a)) accs"
  using assms
proof (induction accs arbitrary: conn)
  case Nil
  then show ?case by simp
next
  case (Cons a accs)
  let ?conn1 = "audit now (fst (AccountDAO_delete conn sortcode (a_number a))) sortcode
      (a_number a) ''ODA'' (''Delete account '' @ str_int (a_number a)) 0"
  have here: "list_ex (acc_key sortcode (a_number a)) (accounts conn)"
    using Cons.prems(2) by simp
  have step: "delete_account now conn (a_number a) sortcode = (?conn1, Inr True)"
    by (rule delete_account_present [OF here])
  have acc1: "accounts ?conn1 = filter (\<lambda>r. \<not> acc_key sortcode (a_number a) r) (accounts conn)"
    by (simp add: AccountDAO_delete_def)
  have cus1: "customers ?conn1 = customers conn"
    by (simp add: AccountDAO_delete_def)
  have tag1: "audit_tags ?conn1 = audit_tags conn @ [(''ODA'', a_number a)]"
    by (simp add: audit_tags_def AccountDAO_delete_def)
  have d: "distinct (map a_number accs)" and fresh: "a_number a \<notin> a_number ` set accs"
    using Cons.prems(1) by simp_all
  have still: "list_all (\<lambda>b. list_ex (acc_key sortcode (a_number b)) (accounts ?conn1)) accs"
    unfolding list_all_iff
  proof
    fix b
    assume b: "b \<in> set accs"
    then have "list_ex (acc_key sortcode (a_number b)) (accounts conn)"
      using Cons.prems(2) by (simp add: list_all_iff)
    moreover have "a_number b \<noteq> a_number a"
      using b fresh by (metis imageI)
    ultimately show "list_ex (acc_key sortcode (a_number b)) (accounts ?conn1)"
      unfolding acc1 by (auto simp: list_ex_iff acc_key_def)
  qed
  from Cons.IH [OF d still] obtain conn' where
    rest: "delete_accounts now ?conn1 sortcode accs = (conn', Inr ())"
    and acc': "accounts conn' =
          filter (\<lambda>r. \<not> (a_sortcode r = sortcode \<and> a_number r \<in> a_number ` set accs))
            (accounts ?conn1)"
    and cus': "customers conn' = customers ?conn1"
    and tag': "audit_tags conn' = audit_tags ?conn1 @ map (\<lambda>a. (''ODA'', a_number a)) accs"
    by blast
  have run: "delete_accounts now conn sortcode (a # accs) = (conn', Inr ())"
    using step rest by simp
  have "accounts conn' =
      filter (\<lambda>r. \<not> (a_sortcode r = sortcode \<and> a_number r \<in> a_number ` set (a # accs)))
        (accounts conn)"
    unfolding acc' acc1 by (auto simp: acc_key_def intro: filter_cong)
  moreover have "audit_tags conn' =
      audit_tags conn @ map (\<lambda>a. (''ODA'', a_number a)) (a # accs)"
    unfolding tag' tag1 by simp
  ultimately show ?case
    using run cus' cus1 by simp
qed

text \<open>
  Up to the page size the cascade is complete: for an existing customer who owns at
  most \<open>MAX_ACCOUNTS_PER_QUERY\<close> accounts, in a store whose account keys are unique,
  \<open>delete_customer\<close> returns, no account of the customer and no row of the customer
  remain, every other row is kept, and the audit table has grown by one ODA row per
  deleted account, in the order of the account numbers and tagged with them, and one
  ODC row with account number 0.
\<close>

lemma delete_customer_cascade:
  assumes cust: "CustomerDAO_get conn sortcode number = Some cust"
    and keys: "distinct (map (\<lambda>r. (a_sortcode r, a_number r)) (accounts conn))"
    and few: "length (filter (acc_owner sortcode number) (accounts conn)) \<le> MAX_ACCOUNTS_PER_QUERY"
  shows "\<exists>conn'. delete_customer now conn number sortcode = (conn', Inr True)
      \<and> accounts conn' = filter (\<lambda>r. \<not> acc_owner sortcode number r) (accounts conn)
      \<and> customers conn' = filter (\<lambda>r. \<not> cust_key sortcode number r) (customers conn)
      \<and> audit_tags conn' = audit_tags conn
          @ map (\<lambda>a. (''ODA'', a_number a))
              (sort_key a_number (filter (acc_owner sortcode number) (accounts conn)))
          @ [(''ODC'', 0)]
      \<and> length (transactions conn') = length (transactions conn)
          + length (filter (acc_owner sortcode number) (accounts conn)) + 1"
proof -
  let ?owned = "filter (acc_owner sortcode number) (accounts conn)"
  let ?accs = "sort_key a_number ?owned"
  have page: "AccountDAO_get_by_customer conn sortcode number = ?accs"
    using few by (simp add: AccountDAO_get_by_customer_def)
  have inj: "inj_on (\<lambda>r. (a_sortcode r, a_number r)) (set (accounts conn))"
    and dis: "distinct (accounts conn)"
    using keys by (simp_all add: distinct_map)
  have inj_owned: "inj_on a_number (set ?owned)"
  proof (rule inj_onI)
    fix x y
    assume "x \<in> set ?owned" "y \<in> set ?owned" "a_number x = a_number y"
    then have "x \<in> set (accounts conn)" "y \<in> set (accounts conn)"
      "(a_sortcode x, a_number x) = (a_sortcode y, a_number y)"
      by (auto simp: acc_owner_def)
    then show "x = y" using inj by (meson inj_onD)
  qed
  have d: "distinct (map a_number ?accs)"
    using dis inj_owned by (simp add: distinct_map)
  have present: "list_all (\<lambda>a. list_ex (acc_key sortcode (a_number a)) (accounts conn)) ?accs"
    by (auto simp: list_all_iff list_ex_iff acc_key_def acc_owner_def)
  from delete_accounts_all [OF d present, of now] obtain conn1 where
    loop: "delete_accounts now conn sortcode ?accs = (conn1, Inr ())"
    and acc1: "accounts conn1 =
          filter (\<lambda>r. \<not> (a_sortcode r = sortcode \<and> a_number r \<in> a_number ` set ?accs))
            (accounts conn)"
    and cus1: "customers conn1 = customers conn"
    and tag1: "audit_tags conn1 = audit_tags conn @ map (\<lambda>a. (''ODA'', a_number a)) ?accs"
    by blast
  have same: "(a_sortcode r = sortcode \<and> a_number r \<in> a_number ` set ?accs)
      \<longleftrightarrow> acc_owner sortcode number r" if r: "r \<in> set (accounts conn)" for r
  proof
    assume h: "a_sortcode r = sortcode \<and> a_number r \<in> a_number ` set ?accs"
    then obtain o' where o: "o' \<in> set (accounts conn)" "acc_owner sortcode number o'"
      "a_number r = a_number o'"
      by auto
    then have "(a_sortcode r, a_number r) = (a_sortcode o', a_number o')"
      using h by (simp add: acc_owner_def)
    then have "r = o'" using inj r o(1) by (meson inj_onD)
    then show "acc_owner sortcode number r" using o(2) by simp
  next
    assume "acc_owner sortcode number r"
    then show "a_sortcode r = sortcode \<and> a_number r \<in> a_number ` set ?accs"
      using r by (auto simp: acc_owner_def)
  qed
  have acc1': "accounts conn1 = filter (\<lambda>r. \<not> acc_owner sortcode number r) (accounts conn)"
    unfolding acc1 using same by (auto intro: filter_cong)
  have none: "\<not> list_ex (acc_owner sortcode number) (accounts conn1)"
    unfolding acc1' by (simp add: list_ex_iff)
  let ?conn2 = "conn1\<lparr>customers := filter (\<lambda>r. \<not> cust_key sortcode number r) (customers conn1)\<rparr>"
  let ?conn3 = "audit now ?conn2 sortcode 0 ''ODC'' (''Delete customer '' @ str_int number) 0"
  have del: "CustomerDAO_delete conn1 sortcode number
      = Inr (?conn2, list_ex (cust_key sortcode number) (customers conn1))"
    using none by (simp add: CustomerDAO_delete_def)
  have run: "delete_customer now conn number sortcode = (?conn3, Inr True)"
    using cust page loop del by (simp add: delete_customer_def Let_def)
  have tags: "audit_tags ?conn3 = audit_tags conn
      @ map (\<lambda>a. (''ODA'', a_number a)) ?accs @ [(''ODC'', 0)]"
    using tag1 by (simp add: audit_tags_def)
  have "length (audit_tags ?conn3) = length (audit_tags conn) + length ?owned + 1"
    unfolding tags by simp
  then have len: "length (transactions ?conn3) = length (transactions conn) + length ?owned + 1"
    by (simp add: audit_tags_def)
  show ?thesis
    using run acc1' cus1 tags len by (intro exI [of _ ?conn3]) simp
qed

end
